theory Spec2Isabelle
  imports Main "HOL-Library.AList"
begin

section \<open>Python strings and values\<close>

text \<open>
  A Python \<open>str\<close> is modelled as a \<open>string\<close> whose characters are read as the code
  points 0..255; code points beyond that range are outside the model.  A value of a
  dynamically typed mapping or list is \<open>None\<close>, a boolean or a string.
\<close>

datatype pyval = PNone | PBool bool | PStr string

text \<open>Python truthiness: \<open>None\<close>, \<open>False\<close> and the empty string are falsy.\<close>

fun truthy :: "pyval \<Rightarrow> bool" where
  "truthy PNone = False"
| "truthy (PBool b) = b"
| "truthy (PStr s) = (s \<noteq> [])"

text \<open>
  A Python \<open>dict\<close> is an association list in insertion order.  \<open>d[k] = v\<close> overwrites
  an existing key in place and appends a new one, which is \<open>AList.update\<close>;
  \<open>d.update(other)\<close> does so for every entry of \<open>other\<close>; \<open>d.get(k)\<close> reads a
  missing key as \<open>None\<close>.
\<close>

type_synonym 'v dict = "(string \<times> 'v) list"

definition dict_update :: "'v dict \<Rightarrow> 'v dict \<Rightarrow> 'v dict" where
  "dict_update d other = foldl (\<lambda>acc (k, v). AList.update k v acc) d other"

definition dict_get :: "pyval dict \<Rightarrow> string \<Rightarrow> pyval" where
  "dict_get d k = (case map_of d k of None \<Rightarrow> PNone | Some v \<Rightarrow> v)"

text \<open>
  \<open>s.replace(old, new)\<close>: every non-overlapping occurrence of \<open>old\<close>, scanning from
  the left; an empty \<open>old\<close> matches before every character and at the end.
\<close>

fun py_replace :: "string \<Rightarrow> string \<Rightarrow> string \<Rightarrow> string" where
  "py_replace old new [] = (if old = [] then new else [])"
| "py_replace old new (c # cs) =
     (if old = [] then new @ c # py_replace old new cs
      else if take (length old) (c # cs) = old
           then new @ py_replace old new (drop (length old - 1) cs)
           else c # py_replace old new cs)"

text \<open>\<open>sep.join(xs)\<close>.\<close>

fun join :: "string \<Rightarrow> string list \<Rightarrow> string" where
  "join sep [] = []"
| "join sep [x] = x"
| "join sep (x # y # ys) = x @ sep @ join sep (y # ys)"

text \<open>Python compares strings lexicographically by code point.\<close>

fun str_le :: "string \<Rightarrow> string \<Rightarrow> bool" where
  "str_le [] t = True"
| "str_le (a # s) [] = False"
| "str_le (a # s) (b # t) =
     (if (of_char a :: nat) < of_char b then True
      else if a = b then str_le s t else False)"

text \<open>\<open>sorted(xs)\<close> on strings: a stable sort, here by insertion.\<close>

fun sorted_insert :: "string \<Rightarrow> string list \<Rightarrow> string list" where
  "sorted_insert x [] = [x]"
| "sorted_insert x (y # ys) =
     (if str_le y x then y # sorted_insert x ys else x # y # ys)"

definition py_sorted :: "string list \<Rightarrow> string list" where
  "py_sorted xs = foldl (\<lambda>acc x. sorted_insert x acc) [] xs"

text \<open>\<open>s.startswith(p)\<close> and \<open>sub in s\<close>.\<close>

definition startswith :: "string \<Rightarrow> string \<Rightarrow> bool" where
  "startswith s p = (take (length p) s = p)"

fun contains :: "string \<Rightarrow> string \<Rightarrow> bool" where
  "contains sub [] = (sub = [])"
| "contains sub (c # cs) = (startswith (c # cs) sub \<or> contains sub cs)"

text \<open>
  \<open>s.lower()\<close> on the code points 0..255: the ASCII capitals and the Latin-1 capitals
  0xC0..0xDE (the multiplication sign 0xD7 apart) move up by 32.
\<close>

definition lower_char :: "char \<Rightarrow> char" where
  "lower_char c =
     (let n = (of_char c :: nat) in
      if (65 \<le> n \<and> n \<le> 90) \<or> (192 \<le> n \<and> n \<le> 222 \<and> n \<noteq> 215)
      then char_of (n + 32) else c)"

definition py_lower :: "string \<Rightarrow> string" where
  "py_lower s = map lower_char s"

text \<open>\<open>s.split(sep)\<close> for a one-character separator: n separators give n + 1 parts.\<close>

fun py_split :: "char \<Rightarrow> string \<Rightarrow> string list" where
  "py_split sep [] = [[]]"
| "py_split sep (c # cs) =
     (if c = sep then [] # py_split sep cs
      else (case py_split sep cs of
              [] \<Rightarrow> [[c]]
            | p # ps \<Rightarrow> (c # p) # ps))"

text \<open>
  \<open>s.strip()\<close>: the characters Python counts as whitespace among the code points
  0..255 are 0x09..0x0D, 0x1C..0x20, 0x85 and 0xA0.
\<close>

definition is_space :: "char \<Rightarrow> bool" where
  "is_space c =
     (let n = (of_char c :: nat) in
      (9 \<le> n \<and> n \<le> 13) \<or> (28 \<le> n \<and> n \<le> 32) \<or> n = 133 \<or> n = 160)"

definition py_strip :: "string \<Rightarrow> string" where
  "py_strip s = rev (dropWhile is_space (rev (dropWhile is_space s)))"

text \<open>
  \<open>s.isnumeric()\<close>: non-empty, and every character has a numeric value; among the code
  points 0..255 these are the ASCII digits, the superscripts 0xB2, 0xB3, 0xB9 and the
  vulgar fractions 0xBC..0xBE.  \<open>int(s)\<close> accepts the ASCII digits only, so that it
  raises \<open>ValueError\<close> on the others.
\<close>

definition is_digit :: "char \<Rightarrow> bool" where
  "is_digit c = (let n = (of_char c :: nat) in 48 \<le> n \<and> n \<le> 57)"

definition is_numeric_char :: "char \<Rightarrow> bool" where
  "is_numeric_char c =
     (let n = (of_char c :: nat) in
      (48 \<le> n \<and> n \<le> 57) \<or> n = 178 \<or> n = 179 \<or> n = 185 \<or> (188 \<le> n \<and> n \<le> 190))"

definition isnumeric :: "string \<Rightarrow> bool" where
  "isnumeric s = (s \<noteq> [] \<and> list_all is_numeric_char s)"

definition nat_of_digits :: "string \<Rightarrow> nat" where
  "nat_of_digits s = foldl (\<lambda>acc c. 10 * acc + (of_char c - 48)) 0 s"

text \<open>The decimal rendering of \<open>%d\<close> for a natural number.\<close>

definition digit_char :: "nat \<Rightarrow> char" where
  "digit_char n = char_of (48 + n)"

function str_of_nat :: "nat \<Rightarrow> string" where
  "str_of_nat n = (if n < 10 then [digit_char n] else str_of_nat (n div 10) @ [digit_char (n mod 10)])"
  by pat_completeness auto
termination
  by (relation "measure id") auto

declare str_of_nat.simps [simp del]

text \<open>
  \<open>os.path.join\<close> on POSIX: an absolute component discards what precedes it, and a
  separator is added unless the path so far is empty or already ends with one.
\<close>

definition join2 :: "string \<Rightarrow> string \<Rightarrow> string" where
  "join2 path b =
     (if startswith b ''/'' then b
      else if path = [] \<or> last path = CHR ''/'' then path @ b
      else path @ ''/'' @ b)"

definition os_path_join :: "string \<Rightarrow> string list \<Rightarrow> string" where
  "os_path_join a ps = foldl join2 a ps"

definition os_path_isabs :: "string \<Rightarrow> bool" where
  "os_path_isabs s = startswith s ''/''"

section \<open>Exceptions, logging and results\<close>

datatype py_exception =
    KeyError string
  | ValueError string
  | TypeError string
  | AttributeError string
  | RuntimeError string
  | OSError string
  | TimeoutExpired
  | MissingExecutableError string
  | UnspecifiedVersionError string

datatype log_level = DEBUG | INFO | WARNING | ERROR

text \<open>
  A log entry keeps the level and the message template of the \<open>logger\<close> call; the
  interpolated arguments are not part of the model.  A computation yields the entries it
  logged, and then either the exception it raised or its value.
\<close>

type_synonym log = "(log_level \<times> string) list"

type_synonym 'a result = "log \<times> (py_exception + 'a)"

definition ret :: "'a \<Rightarrow> 'a result" where
  "ret x = ([], Inr x)"

definition raise :: "py_exception \<Rightarrow> 'a result" where
  "raise e = ([], Inl e)"

definition logger :: "log_level \<Rightarrow> string \<Rightarrow> unit result" where
  "logger lvl msg = ([(lvl, msg)], Inr ())"

definition bind :: "'a result \<Rightarrow> ('a \<Rightarrow> 'b result) \<Rightarrow> 'b result" where
  "bind m f =
     (case m of
        (lg, Inl e) \<Rightarrow> (lg, Inl e)
      | (lg, Inr x) \<Rightarrow> (case f x of (lg', r) \<Rightarrow> (lg @ lg', r)))"

definition seq :: "unit result \<Rightarrow> 'b result \<Rightarrow> 'b result" where
  "seq m k = bind m (\<lambda>_. k)"

section \<open>The host\<close>

text \<open>
  Everything the code asks of the operating system and of the Python library is a field
  of the host: the process environment, the file system tests, \<open>shutil.which\<close>,
  the outcome of running a subprocess, the \<open>shlex\<close> tokenizer, and the values taken
  from modules that are not part of the sources (\<open>settings.RUNNER_DIR\<close>,
  \<open>get_steamapps_dirs\<close>, \<open>LINUX_SYSTEM.gamemode_available\<close>).  The field
  \<open>fsr_option_memo\<close> is what the memo of \<open>_get_gamescope_fsr_option\<close> holds when
  the call is made.
\<close>

text \<open>The arguments \<open>_execute\<close> hands to \<open>subprocess.Popen\<close> and \<open>communicate\<close>.\<close>

record popen_args =
  pa_command :: "string list"
  pa_shell :: bool
  pa_capture_stderr :: bool
  pa_env :: "string dict"
  pa_cwd :: "string option"
  pa_timeout :: "nat option"

text \<open>
  A subprocess either completes with the text of its standard output and standard error,
  or \<open>Popen\<close>/\<open>communicate\<close> raises.
\<close>

datatype proc_outcome = Completed string string | Raised py_exception

record host =
  os_environ :: "string dict"
  os_path_exists :: "string \<Rightarrow> bool"
  os_path_islink :: "string \<Rightarrow> bool"
  os_path_isdir :: "string \<Rightarrow> bool"
  os_path_isfile :: "string \<Rightarrow> bool"
  os_path_expanduser :: "string \<Rightarrow> string"
  os_path_expandvars :: "string \<Rightarrow> string"
  os_stat_size :: "string \<Rightarrow> nat"
  os_listdir :: "string \<Rightarrow> string list option"
  shutil_which :: "string \<Rightarrow> string option"
  shlex_split :: "string \<Rightarrow> string list option"
  subprocess_run :: "popen_args \<Rightarrow> proc_outcome"
  gamemode_available :: bool
  get_steamapps_dirs :: "string list option"
  settings_RUNNER_DIR :: string
  fsr_option_memo :: "string list option"

section \<open>lutris/util/system.py\<close>

text \<open>\<open>get_environment\<close>: the environment without the keys that start with \<open>BASH_FUNC\<close>.\<close>

definition get_environment :: "host \<Rightarrow> string dict" where
  "get_environment h = filter (\<lambda>(key, value). \<not> startswith key ''BASH_FUNC'') (os_environ h)"

text \<open>
  \<open>path_exists(path, check_symlinks, exclude_empty)\<close>; a broken link is logged and
  counts as existing unless \<open>check_symlinks\<close> is set.
\<close>

definition path_exists :: "host \<Rightarrow> string \<Rightarrow> bool \<Rightarrow> bool \<Rightarrow> bool result" where
  "path_exists h path check_symlinks exclude_empty =
     (if path = [] then ret False
      else
        let path = (if startswith path ''~'' then os_path_expanduser h path else path) in
        if os_path_exists h path then
          (if exclude_empty then ret (os_stat_size h path > 0) else ret True)
        else if os_path_islink h path then
          seq (logger WARNING ''%s is a broken link'') (ret (\<not> check_symlinks))
        else ret False)"

text \<open>
  What \<open>_execute\<close> returns: the empty string on every failure path, the pair of stripped
  outputs otherwise.
\<close>

datatype exec_value = Str string | Tuple2 string string

text \<open>
  \<open>_execute(command, env, cwd, capture_stderr, quiet, shell, timeout)\<close>.  The overlay
  \<open>env\<close> may map a name to \<open>None\<close>; such entries are dropped.  Without
  \<open>capture_stderr\<close> the standard error goes to \<open>DEVNULL\<close> and \<open>communicate\<close>
  returns \<open>None\<close> for it, which \<open>(stderr or "")\<close> turns into the empty string.
  \<open>OSError\<close>, \<open>TypeError\<close> and \<open>TimeoutExpired\<close> are caught; anything else
  propagates.
\<close>

definition overlay_env :: "string option dict \<Rightarrow> string dict" where
  "overlay_env env = concat (map (\<lambda>(k, v). case v of None \<Rightarrow> [] | Some x \<Rightarrow> [(k, x)]) env)"

definition private_execute ::
  "host \<Rightarrow> string list \<Rightarrow> string option dict option \<Rightarrow> string option \<Rightarrow> bool \<Rightarrow> bool \<Rightarrow> bool
     \<Rightarrow> nat option \<Rightarrow> exec_value result" where
  "private_execute h command env cwd capture_stderr quiet shell timeout =
     (if command = [] then
        seq (logger ERROR ''No executable provided!'') (ret (Str []))
      else
        bind (if os_path_isabs (hd command) then path_exists h (hd command) False False
              else ret True) (\<lambda>found.
        if os_path_isabs (hd command) \<and> \<not> found then
          seq (logger ERROR ''No executable found in %s'') (ret (Str []))
        else
          seq (if \<not> quiet then logger DEBUG ''Executing %s'' else ret ())
          (let existing_env = get_environment h;
               has_env = (case env of None \<Rightarrow> False | Some e \<Rightarrow> e \<noteq> []) in
           seq (if has_env \<and> \<not> quiet then logger DEBUG ''%s=%s'' else ret ())
           (let existing_env =
                  (case env of
                     None \<Rightarrow> existing_env
                   | Some e \<Rightarrow> if e = [] then existing_env
                               else dict_update existing_env (overlay_env e))
            in
            case subprocess_run h
                   \<lparr>pa_command = command, pa_shell = shell, pa_capture_stderr = capture_stderr,
                    pa_env = existing_env, pa_cwd = cwd, pa_timeout = timeout\<rparr> of
              Completed stdout stderr \<Rightarrow>
                ret (Tuple2 (py_strip stdout) (py_strip (if capture_stderr then stderr else [])))
            | Raised (OSError m) \<Rightarrow>
                seq (logger ERROR ''Could not run command %s (env: %s): %s'') (ret (Str []))
            | Raised (TypeError m) \<Rightarrow>
                seq (logger ERROR ''Could not run command %s (env: %s): %s'') (ret (Str []))
            | Raised TimeoutExpired \<Rightarrow>
                seq (logger ERROR ''Command %s after %s seconds'') (ret (Str []))
            | Raised ex \<Rightarrow> raise ex))))"

text \<open>
  The tuple assignment \<open>a, b = value\<close>: a pair unpacks into its components, a string
  into its characters, and any length other than two raises \<open>ValueError\<close>.
\<close>

definition unpack2 :: "exec_value \<Rightarrow> (string \<times> string) result" where
  "unpack2 v =
     (case v of
        Tuple2 a b \<Rightarrow> ret (a, b)
      | Str s \<Rightarrow>
          (case s of
             [a, b] \<Rightarrow> ret ([a], [b])
           | _ \<Rightarrow> if length s < 2
                  then raise (ValueError ''not enough values to unpack'')
                  else raise (ValueError ''too many values to unpack'')))"

text \<open>\<open>execute\<close> unpacks what \<open>_execute\<close> returned and keeps the standard output.\<close>

definition execute ::
  "host \<Rightarrow> string list \<Rightarrow> string option dict option \<Rightarrow> string option \<Rightarrow> bool \<Rightarrow> bool
     \<Rightarrow> nat option \<Rightarrow> string result" where
  "execute h command env cwd quiet shell timeout =
     bind (private_execute h command env cwd False quiet shell timeout) (\<lambda>v.
     bind (unpack2 v) (\<lambda>(stdout, stderr). ret stdout))"

text \<open>\<open>execute_with_error\<close> returns what \<open>_execute\<close> returned, with \<open>capture_stderr\<close> set.\<close>

definition execute_with_error ::
  "host \<Rightarrow> string list \<Rightarrow> string option dict option \<Rightarrow> string option \<Rightarrow> bool \<Rightarrow> bool
     \<Rightarrow> nat option \<Rightarrow> exec_value result" where
  "execute_with_error h command env cwd quiet shell timeout =
     private_execute h command env cwd True quiet shell timeout"

text \<open>\<open>can_find_executable\<close> and \<open>find_executable\<close> over \<open>shutil.which\<close>.\<close>

definition can_find_executable :: "host \<Rightarrow> string \<Rightarrow> bool" where
  "can_find_executable h exec_name =
     (exec_name \<noteq> [] \<and> (case shutil_which h exec_name of None \<Rightarrow> False | Some exe \<Rightarrow> exe \<noteq> []))"

definition find_executable :: "host \<Rightarrow> string \<Rightarrow> string result" where
  "find_executable h exec_name =
     (case (if exec_name \<noteq> [] then shutil_which h exec_name else None) of
        Some exe \<Rightarrow>
          if exe \<noteq> [] then ret exe
          else raise (MissingExecutableError ''The executable %s could not be found.'')
      | None \<Rightarrow> raise (MissingExecutableError ''The executable %s could not be found.''))"

section \<open>lutris/util/wine/wine.py\<close>

subsection \<open>The table of system-wide Wine builds\<close>

text \<open>
  \<open>WINE_DIR\<close> and \<open>WINE_PATHS\<close> are computed when the module is loaded: the four fixed
  entries, then one entry \<open>System wine-*\<close> for every directory of \<open>/usr/lib/\<close> that
  holds \<open>bin/wine\<close>.  When \<open>/usr/lib/\<close> cannot be listed the table keeps its fixed
  entries.
\<close>

definition WINE_DIR :: "host \<Rightarrow> string" where
  "WINE_DIR h = os_path_join (settings_RUNNER_DIR h) [''wine'']"

definition WINE_PATHS_static :: "string dict" where
  "WINE_PATHS_static =
     [(''winehq-devel'', ''/opt/wine-devel/bin/wine''),
      (''winehq-staging'', ''/opt/wine-staging/bin/wine''),
      (''wine-development'', ''/usr/lib/wine-development/wine''),
      (''system'', ''wine'')]"

definition add_system_wine :: "host \<Rightarrow> string dict \<Rightarrow> string \<Rightarrow> string dict" where
  "add_system_wine h paths candidate =
     (if startswith candidate ''wine-'' then
        let wine_path = os_path_join ''/usr/lib/'' [candidate, ''bin/wine''] in
        if os_path_isfile h wine_path
        then AList.update (''System '' @ candidate) wine_path paths
        else paths
      else paths)"

definition WINE_PATHS :: "host \<Rightarrow> string dict" where
  "WINE_PATHS h =
     (case os_listdir h ''/usr/lib/'' of
        None \<Rightarrow> WINE_PATHS_static
      | Some candidates \<Rightarrow> foldl (add_system_wine h) WINE_PATHS_static candidates)"

subsection \<open>Proton locations\<close>

text \<open>
  \<open>_iter_proton_locations\<close>: the \<open>common\<close> directories of the Steam libraries, then the
  libraries themselves; nothing when the Steam configuration cannot be read.
\<close>

definition iter_proton_locations :: "host \<Rightarrow> string list" where
  "iter_proton_locations h =
     (case get_steamapps_dirs h of
        None \<Rightarrow> []
      | Some steamapp_dirs \<Rightarrow>
          filter (os_path_isdir h) (map (\<lambda>p. os_path_join p [''common'']) steamapp_dirs)
          @ filter (os_path_isdir h) (map (\<lambda>p. os_path_join p ['''']) steamapp_dirs))"

text \<open>
  \<open>get_proton_paths\<close> collects the locations in a Python set and returns it as a list.
  The set is a list without duplicates here, kept in the order of discovery; the order in
  which Python lists a set is not specified, and no property below depends on it.
\<close>

definition set_add :: "'a \<Rightarrow> 'a list \<Rightarrow> 'a list" where
  "set_add x xs = (if x \<in> set xs then xs else xs @ [x])"

fun scan_proton_versions :: "host \<Rightarrow> string \<Rightarrow> string list \<Rightarrow> string list \<Rightarrow> string list result" where
  "scan_proton_versions h path [] paths = ret paths"
| "scan_proton_versions h path (version # versions) paths =
     bind (path_exists h (os_path_join path [version, ''dist/bin/wine'']) False False) (\<lambda>dist.
     bind (path_exists h (os_path_join path [version, ''files/bin/wine'']) False False) (\<lambda>files.
     scan_proton_versions h path versions
       (if dist \<or> files then set_add path paths else paths)))"

fun scan_proton_locations :: "host \<Rightarrow> string list \<Rightarrow> string list \<Rightarrow> string list result" where
  "scan_proton_locations h [] paths = ret paths"
| "scan_proton_locations h (path # rest) paths =
     (case os_listdir h path of
        None \<Rightarrow> raise (OSError ''listdir'')
      | Some entries \<Rightarrow>
          bind (scan_proton_versions h path (filter (contains ''Proton'') entries) paths)
               (\<lambda>paths. scan_proton_locations h rest paths))"

definition get_proton_paths :: "host \<Rightarrow> string list result" where
  "get_proton_paths h = scan_proton_locations h (iter_proton_locations h) []"

subsection \<open>Resolving a version to an executable\<close>

text \<open>The loop over the Proton locations of \<open>get_wine_path_for_version\<close>.\<close>

fun find_proton_wine :: "host \<Rightarrow> string \<Rightarrow> string list \<Rightarrow> string option" where
  "find_proton_wine h version [] = None"
| "find_proton_wine h version (proton_path # rest) =
     (if os_path_isfile h (os_path_join proton_path [version, ''dist/bin/wine''])
      then Some (os_path_join proton_path [version, ''dist/bin/wine''])
      else if os_path_isfile h (os_path_join proton_path [version, ''files/bin/wine''])
      then Some (os_path_join proton_path [version, ''files/bin/wine''])
      else find_proton_wine h version rest)"

text \<open>
  The branches of \<open>get_wine_path_for_version\<close> after the version is known to be truthy.
  A truthy value that is not a string is a key of no table, and the test
  \<open>"Proton" in version\<close> raises \<open>TypeError\<close> on it.
\<close>

definition custom_wine_path :: "pyval dict option \<Rightarrow> pyval result" where
  "custom_wine_path config =
     (case config of
        None \<Rightarrow>
          raise (RuntimeError
            ''Custom wine paths are only supported when a configuration is available.'')
      | Some cfg \<Rightarrow>
          let wine_path = dict_get cfg ''custom_wine_path'' in
          if \<not> truthy wine_path then
            raise (RuntimeError
              ''The 'custom' Wine version can be used only if the custom wine path is set.'')
          else ret wine_path)"

definition resolve_version_string :: "host \<Rightarrow> string \<Rightarrow> pyval dict option \<Rightarrow> pyval result" where
  "resolve_version_string h version config =
     (case map_of (WINE_PATHS h) version of
        Some build \<Rightarrow> bind (find_executable h build) (\<lambda>exe. ret (PStr exe))
      | None \<Rightarrow>
          bind (if contains ''Proton'' version
                then bind (get_proton_paths h) (\<lambda>paths. ret (find_proton_wine h version paths))
                else ret None) (\<lambda>proton.
          case proton of
            Some wine \<Rightarrow> ret (PStr wine)
          | None \<Rightarrow>
              if version = ''custom'' then custom_wine_path config
              else ret (PStr (os_path_join (WINE_DIR h) [version, ''bin/wine'']))))"

text \<open>
  \<open>get_wine_path_for_version(version, config)\<close>.  An empty dictionary is falsy, so the
  version is read from \<open>config\<close> only when \<open>config\<close> has an entry; the read is by index
  and raises \<open>KeyError\<close> when the key is missing.
\<close>

definition get_wine_path_for_version :: "host \<Rightarrow> pyval \<Rightarrow> pyval dict option \<Rightarrow> pyval result" where
  "get_wine_path_for_version h version config =
     bind (case config of
             None \<Rightarrow> ret version
           | Some cfg \<Rightarrow>
               if \<not> truthy version \<and> cfg \<noteq> []
               then (case map_of cfg ''version'' of
                       None \<Rightarrow> raise (KeyError ''version'')
                     | Some v \<Rightarrow> ret v)
               else ret version) (\<lambda>version.
     if \<not> truthy version then
       raise (UnspecifiedVersionError ''The Wine version must be specified.'')
     else
       case version of
         PStr v \<Rightarrow> resolve_version_string h v config
       | _ \<Rightarrow> raise (TypeError ''argument of type is not iterable''))"

subsection \<open>DLL overrides\<close>

text \<open>An override value is a string or \<open>None\<close>.\<close>

type_synonym overrides = "string option dict"

definition default_overrides :: overrides where
  "default_overrides = [(''winemenubuilder'', Some [])]"

definition empty_buckets :: "string list dict" where
  "empty_buckets = [(''n,b'', []), (''b,n'', []), (''b'', []), (''n'', []), (''d'', []), ([], [])]"

text \<open>The rewrites applied to one override value, in the order of the source.\<close>

definition normalize_override :: "string option \<Rightarrow> string" where
  "normalize_override value =
     (let value = (case value of None \<Rightarrow> [] | Some v \<Rightarrow> v);
          value = py_replace '' '' [] value;
          value = py_replace ''builtin'' ''b'' value;
          value = py_replace ''native'' ''n'' value;
          value = py_replace ''disabled'' [] value
      in value)"

text \<open>
  The first loop: \<open>override_buckets[value].append(dll)\<close>, where the \<open>KeyError\<close> of an
  unknown bucket is caught and logged, and the entry is skipped.
\<close>

fun fill_buckets :: "overrides \<Rightarrow> string list dict \<Rightarrow> string list dict result" where
  "fill_buckets [] buckets = ret buckets"
| "fill_buckets ((dll, value) # rest) buckets =
     (let value = normalize_override value in
      case map_of buckets value of
        Some dlls \<Rightarrow> fill_buckets rest (AList.update value (dlls @ [dll]) buckets)
      | None \<Rightarrow> seq (logger ERROR ''Invalid override value %s'') (fill_buckets rest buckets))"

text \<open>The second loop: one group \<open>dlls=value\<close> per non-empty bucket, in bucket order.\<close>

fun override_strings :: "string list dict \<Rightarrow> string list" where
  "override_strings [] = []"
| "override_strings ((value, dlls) # rest) =
     (if dlls = [] then override_strings rest
      else (join '','' (py_sorted dlls) @ ''='' @ value) # override_strings rest)"

text \<open>
  \<open>get_overrides_env\<close> updates the dictionary it is given, so the value of the model is
  the caller's dictionary after the call together with the returned string.
\<close>

definition get_overrides_env :: "overrides \<Rightarrow> (overrides \<times> string) result" where
  "get_overrides_env overrides =
     (let overrides = dict_update overrides default_overrides in
      bind (fill_buckets overrides empty_buckets) (\<lambda>override_buckets.
      ret (overrides, join '';'' (override_strings override_buckets))))"

section \<open>lutris/runner_interpreter.py\<close>

text \<open>
  The runner supplies its system configuration and its environment; the gameplay info
  holds the base command and the optional entries \<open>env\<close>, \<open>ld_preload\<close> and
  \<open>ld_library_path\<close>, where a missing optional entry reads as \<open>None\<close>.  The command
  vector is a Python list, whose elements are values: the stages insert configuration
  values into it as they are.
\<close>

record runner =
  runner_system_config :: "pyval dict"
  runner_get_env :: "pyval dict"

record gameplay_info =
  gi_command :: "pyval list"
  gi_env :: "pyval dict option"
  gi_ld_preload :: pyval
  gi_ld_library_path :: pyval

text \<open>\<open>get_mangohud_conf\<close>: \<open>(None, None)\<close> is \<open>None\<close> here.\<close>

definition get_mangohud_conf :: "host \<Rightarrow> pyval dict \<Rightarrow> (pyval list \<times> pyval dict) option" where
  "get_mangohud_conf h system_config =
     (let mangohud_val = (if truthy (dict_get system_config ''gamescope'') then ''0'' else ''1'') in
      if truthy (dict_get system_config ''mangohud'') \<and> can_find_executable h ''mangohud''
      then Some ([PStr ''mangohud''],
                 [(''MANGOHUD'', PStr mangohud_val), (''MANGOHUD_DLSYM'', PStr ''1'')])
      else None)"

subsection \<open>The gamescope wrapper\<close>

text \<open>
  Modelled from the spec: \<open>cache_single\<close>, the decorator of \<open>lutris.util\<close> (that module
  is not among the sources): a memoized, lazily evaluated one-shot check, cached for the
  lifetime of the process.  A held value is returned without running the function; the
  store of a fresh value changes later calls only, which see it as the host's memo.
\<close>

definition cache_single :: "'a option \<Rightarrow> 'a result \<Rightarrow> 'a result" where
  "cache_single memo compute = (case memo of Some v \<Rightarrow> ret v | None \<Rightarrow> compute)"

text \<open>
  \<open>_get_gamescope_fsr_option\<close>, before the decorator: the help text of gamescope decides
  between the two spellings of the flag.
\<close>

definition compute_gamescope_fsr_option :: "host \<Rightarrow> string list result" where
  "compute_gamescope_fsr_option h =
     bind (if can_find_executable h ''gamescope'' then
             bind (execute_with_error h [''gamescope'', ''--help''] None None False False None) (\<lambda>v.
             bind (unpack2 v) (\<lambda>(stdout, stderr).
             ret (contains ''-F, --filter'' (stdout @ stderr))))
           else ret False) (\<lambda>has_filter.
     if has_filter then ret [''-F'', ''fsr''] else ret [''-U''])"

definition private_get_gamescope_fsr_option :: "host \<Rightarrow> string list result" where
  "private_get_gamescope_fsr_option h =
     cache_single (fsr_option_memo h) (compute_gamescope_fsr_option h)"

text \<open>
  \<open>shlex.split\<close> of a configuration value: the tokenizer raises \<open>ValueError\<close> on
  unbalanced quoting, and a value that is not a string cannot be read.
\<close>

definition split_flags :: "host \<Rightarrow> pyval \<Rightarrow> pyval list result" where
  "split_flags h v =
     (case v of
        PStr s \<Rightarrow>
          (case shlex_split h s of
             None \<Rightarrow> raise (ValueError ''No closing quotation'')
           | Some tokens \<Rightarrow> ret (map PStr tokens))
      | _ \<Rightarrow> raise (AttributeError ''read''))"

text \<open>
  \<open>width, height = value.lower().split("x")\<close>: \<open>AttributeError\<close> on a value that is
  not a string, \<open>ValueError\<close> unless the split gives exactly two parts.
\<close>

definition split_resolution :: "pyval \<Rightarrow> (string \<times> string) result" where
  "split_resolution v =
     (case v of
        PStr s \<Rightarrow>
          (case py_split CHR ''x'' (py_lower s) of
             [width, height] \<Rightarrow> ret (width, height)
           | parts \<Rightarrow> if length parts < 2
                      then raise (ValueError ''not enough values to unpack'')
                      else raise (ValueError ''too many values to unpack''))
      | _ \<Rightarrow> raise (AttributeError ''lower''))"

definition get_gamescope_args :: "host \<Rightarrow> pyval list \<Rightarrow> pyval dict \<Rightarrow> pyval list result" where
  "get_gamescope_args h launch_arguments system_config =
     (let launch_arguments = PStr ''--'' # launch_arguments;
          launch_arguments =
            (if truthy (dict_get system_config ''gamescope_force_grab_cursor'')
             then PStr ''--force-grab-cursor'' # launch_arguments else launch_arguments)
      in
      bind (if truthy (dict_get system_config ''gamescope_fsr_sharpness'')
            then bind (private_get_gamescope_fsr_option h) (\<lambda>fsr_option.
                 ret (map PStr fsr_option
                      @ PStr ''--fsr-sharpness''
                      # dict_get system_config ''gamescope_fsr_sharpness''
                      # launch_arguments))
            else ret launch_arguments) (\<lambda>launch_arguments.
      bind (if truthy (dict_get system_config ''gamescope_flags'')
            then bind (split_flags h (dict_get system_config ''gamescope_flags'')) (\<lambda>gamescope_flags.
                 ret (gamescope_flags @ launch_arguments))
            else ret launch_arguments) (\<lambda>launch_arguments.
      let launch_arguments =
            (if truthy (dict_get system_config ''gamescope_window_mode'')
             then dict_get system_config ''gamescope_window_mode'' # launch_arguments
             else launch_arguments);
          launch_arguments =
            (if truthy (dict_get system_config ''gamescope_fps_limiter'')
             then PStr ''-r'' # dict_get system_config ''gamescope_fps_limiter'' # launch_arguments
             else launch_arguments)
      in
      bind (if truthy (dict_get system_config ''gamescope_output_res'')
            then bind (split_resolution (dict_get system_config ''gamescope_output_res''))
                   (\<lambda>(output_width, output_height).
                 ret (PStr ''-W'' # PStr output_width # PStr ''-H'' # PStr output_height
                      # launch_arguments))
            else ret launch_arguments) (\<lambda>launch_arguments.
      bind (if truthy (dict_get system_config ''gamescope_game_res'')
            then bind (split_resolution (dict_get system_config ''gamescope_game_res''))
                   (\<lambda>(game_width, game_height).
                 ret (PStr ''-w'' # PStr game_width # PStr ''-h'' # PStr game_height
                      # launch_arguments))
            else ret launch_arguments) (\<lambda>launch_arguments.
      ret (PStr ''gamescope'' # launch_arguments))))))"

subsection \<open>The stages of \<open>get_launch_parameters\<close>\<close>

text \<open>
  Each block of \<open>get_launch_parameters\<close> is one definition, in the order of the source.
  The source inserts into the list of the gameplay info in place until a stage rebinds
  \<open>launch_arguments\<close> to a new list; the model follows the value of
  \<open>launch_arguments\<close> only.
\<close>

text \<open>Steam compatibility.\<close>

definition steam_compatibility :: "host \<Rightarrow> pyval dict \<Rightarrow> pyval dict result" where
  "steam_compatibility h env =
     (case map_of (os_environ h) ''SteamAppId'' of
        Some app_id \<Rightarrow>
          if app_id \<noteq> [] then
            seq (logger INFO ''Game launched from steam (AppId: %s)'')
                (ret (AList.update ''LC_ALL'' (PStr []) env))
          else ret env
      | None \<Rightarrow> ret env)"

text \<open>The locale: \<open>system_config["locale"]\<close> is read by index.\<close>

definition set_locale :: "pyval dict \<Rightarrow> pyval dict \<Rightarrow> pyval dict result" where
  "set_locale system_config env =
     (case map_of system_config ''locale'' of
        None \<Rightarrow> raise (KeyError ''locale'')
      | Some locale \<Rightarrow>
          if locale \<noteq> PStr [] then ret (AList.update ''LC_ALL'' locale env) else ret env)"

text \<open>Optimus.\<close>

definition optimus_stage :: "host \<Rightarrow> pyval dict \<Rightarrow> pyval list \<Rightarrow> pyval list" where
  "optimus_stage h system_config launch_arguments =
     (let optimus = dict_get system_config ''optimus'' in
      if optimus = PStr ''primusrun'' \<and> can_find_executable h ''primusrun''
        then PStr ''primusrun'' # launch_arguments
      else if optimus = PStr ''optirun'' \<and> can_find_executable h ''optirun''
        then PStr ''optirun'' # PStr ''-b'' # PStr ''virtualgl'' # launch_arguments
      else if optimus = PStr ''pvkrun'' \<and> can_find_executable h ''pvkrun''
        then PStr ''pvkrun'' # launch_arguments
      else launch_arguments)"

text \<open>MangoHud.\<close>

definition mangohud_stage ::
  "host \<Rightarrow> pyval dict \<Rightarrow> pyval list \<times> pyval dict \<Rightarrow> pyval list \<times> pyval dict" where
  "mangohud_stage h system_config st =
     (case st of (launch_arguments, env) \<Rightarrow>
        (case get_mangohud_conf h system_config of
           Some (mango_args, mango_env) \<Rightarrow>
             if mango_args \<noteq> [] then (mango_args @ launch_arguments, dict_update env mango_env)
             else (launch_arguments, env)
         | None \<Rightarrow> (launch_arguments, env)))"

text \<open>
  Libstrangle: \<open>MissingExecutableError\<close> is caught, a warning is logged and the vector
  stays as it is.
\<close>

definition libstrangle_stage :: "host \<Rightarrow> pyval dict \<Rightarrow> pyval list \<Rightarrow> pyval list result" where
  "libstrangle_stage h system_config launch_arguments =
     (let fps_limit = (if truthy (dict_get system_config ''fps_limit'')
                       then dict_get system_config ''fps_limit'' else PStr [])
      in
      if truthy fps_limit then
        (case find_executable h ''strangle'' of
           (lg, Inr strangle_cmd) \<Rightarrow> (lg, Inr (PStr strangle_cmd # fps_limit # launch_arguments))
         | (lg, Inl (MissingExecutableError m)) \<Rightarrow>
             bind (lg, Inr ()) (\<lambda>_.
             seq (logger WARNING ''libstrangle is not available on this system, FPS limiter disabled'')
                 (ret launch_arguments))
         | (lg, Inl ex) \<Rightarrow> (lg, Inl ex))
      else ret launch_arguments)"

text \<open>
  The prefix command: \<open>os.path.expandvars\<close> raises \<open>TypeError\<close> on a value that is
  not a string, \<open>shlex.split\<close> raises \<open>ValueError\<close> on unbalanced quoting.
\<close>

definition prefix_command_stage :: "host \<Rightarrow> pyval dict \<Rightarrow> pyval list \<Rightarrow> pyval list result" where
  "prefix_command_stage h system_config launch_arguments =
     (let prefix_command = (if truthy (dict_get system_config ''prefix_command'')
                            then dict_get system_config ''prefix_command'' else PStr [])
      in
      if truthy prefix_command then
        (case prefix_command of
           PStr s \<Rightarrow>
             (case shlex_split h (os_path_expandvars h s) of
                None \<Rightarrow> raise (ValueError ''No closing quotation'')
              | Some tokens \<Rightarrow> ret (map PStr tokens @ launch_arguments))
         | _ \<Rightarrow> raise (TypeError ''expected str, bytes or os.PathLike object''))
      else ret launch_arguments)"

text \<open>
  CPU affinity: \<open>isnumeric\<close> exists on strings only, and \<open>int\<close> raises
  \<open>ValueError\<close> on a numeric character that is not a decimal digit.
\<close>

definition parse_limit_cpu_count :: "pyval \<Rightarrow> nat result" where
  "parse_limit_cpu_count limit_cpu_count =
     (if truthy limit_cpu_count then
        (case limit_cpu_count of
           PStr s \<Rightarrow>
             if isnumeric s then
               (if list_all is_digit s then ret (nat_of_digits s)
                else raise (ValueError ''invalid literal for int() with base 10''))
             else ret 1
         | _ \<Rightarrow> raise (AttributeError ''isnumeric''))
      else ret 1)"

definition single_cpu_stage :: "pyval dict \<Rightarrow> pyval list \<Rightarrow> pyval list result" where
  "single_cpu_stage system_config launch_arguments =
     (let single_cpu = (if truthy (dict_get system_config ''single_cpu'')
                        then dict_get system_config ''single_cpu'' else PBool False)
      in
      if truthy single_cpu then
        bind (parse_limit_cpu_count (dict_get system_config ''limit_cpu_count'')) (\<lambda>limit_cpu_count.
        let limit_cpu_count = max 1 limit_cpu_count in
        seq (logger INFO ''The game will run on %d CPU core(s)'')
            (ret (PStr ''taskset'' # PStr ''-c''
                  # PStr (''0-'' @ str_of_nat (limit_cpu_count - 1)) # launch_arguments)))
      else ret launch_arguments)"

text \<open>The environment of the runner, then the one of the gameplay info.\<close>

definition merge_env :: "runner \<Rightarrow> gameplay_info \<Rightarrow> pyval dict \<Rightarrow> pyval dict" where
  "merge_env r gameplay_info env =
     (let env = dict_update env (runner_get_env r) in
      dict_update env (case gi_env gameplay_info of
                         None \<Rightarrow> []
                       | Some e \<Rightarrow> e))"

text \<open>
  \<open>LD_PRELOAD\<close> and \<open>LD_LIBRARY_PATH\<close>: \<open>os.pathsep.join\<close> raises \<open>TypeError\<close> on
  an element that is not a string.
\<close>

fun join_paths :: "pyval list \<Rightarrow> string list result" where
  "join_paths [] = ret []"
| "join_paths (PStr s # rest) = bind (join_paths rest) (\<lambda>strs. ret (s # strs))"
| "join_paths (v # rest) = raise (TypeError ''sequence item: expected str instance'')"

definition ld_stage :: "gameplay_info \<Rightarrow> pyval dict \<Rightarrow> pyval dict result" where
  "ld_stage gameplay_info env =
     (let ld_preload = gi_ld_preload gameplay_info;
          env = (if truthy ld_preload then AList.update ''LD_PRELOAD'' ld_preload env else env);
          game_ld_library_path = gi_ld_library_path gameplay_info
      in
      if truthy game_ld_library_path then
        (let ld_library_path = dict_get env ''LD_LIBRARY_PATH'' in
         bind (join_paths (filter truthy [game_ld_library_path, ld_library_path])) (\<lambda>strs.
         ret (AList.update ''LD_LIBRARY_PATH'' (PStr (join '':'' strs)) env)))
      else ret env)"

text \<open>Feral gamemode.\<close>

definition gamemode_stage :: "host \<Rightarrow> pyval dict \<Rightarrow> pyval list \<Rightarrow> pyval list" where
  "gamemode_stage h system_config launch_arguments =
     (if truthy (dict_get system_config ''gamemode'') \<and> gamemode_available h
      then PStr ''gamemoderun'' # launch_arguments
      else launch_arguments)"

text \<open>Gamescope.\<close>

definition gamescope_stage :: "host \<Rightarrow> pyval dict \<Rightarrow> pyval list \<Rightarrow> pyval list result" where
  "gamescope_stage h system_config launch_arguments =
     (if truthy (dict_get system_config ''gamescope'') \<and> can_find_executable h ''gamescope''
      then get_gamescope_args h launch_arguments system_config
      else ret launch_arguments)"

text \<open>\<open>get_launch_parameters(runner, gameplay_info)\<close>.\<close>

definition get_launch_parameters ::
  "host \<Rightarrow> runner \<Rightarrow> gameplay_info \<Rightarrow> (pyval list \<times> pyval dict) result" where
  "get_launch_parameters h r gameplay_info =
     (let system_config = runner_system_config r;
          launch_arguments = gi_command gameplay_info;
          env = [(''DISABLE_LAYER_AMD_SWITCHABLE_GRAPHICS_1'', PStr ''1'')]
      in
      bind (steam_compatibility h env) (\<lambda>env.
      bind (set_locale system_config env) (\<lambda>env.
      let launch_arguments = optimus_stage h system_config launch_arguments;
          (launch_arguments, env) = mangohud_stage h system_config (launch_arguments, env)
      in
      bind (libstrangle_stage h system_config launch_arguments) (\<lambda>launch_arguments.
      bind (prefix_command_stage h system_config launch_arguments) (\<lambda>launch_arguments.
      bind (single_cpu_stage system_config launch_arguments) (\<lambda>launch_arguments.
      let env = merge_env r gameplay_info env in
      bind (ld_stage gameplay_info env) (\<lambda>env.
      let launch_arguments = gamemode_stage h system_config launch_arguments in
      bind (gamescope_stage h system_config launch_arguments) (\<lambda>launch_arguments.
      ret (launch_arguments, env)))))))))"

section \<open>Concrete hosts\<close>

text \<open>
  A host on which nothing is installed and no path exists, and a host on which every tool
  is found under \<open>/usr/bin\<close> and gamemode is available.  On both, \<open>shlex.split\<close>
  splits at spaces and starting a subprocess fails.
\<close>

definition bare_host :: host where
  "bare_host =
     \<lparr>os_environ = [],
      os_path_exists = (\<lambda>p. False),
      os_path_islink = (\<lambda>p. False),
      os_path_isdir = (\<lambda>p. False),
      os_path_isfile = (\<lambda>p. False),
      os_path_expanduser = (\<lambda>p. p),
      os_path_expandvars = (\<lambda>p. p),
      os_stat_size = (\<lambda>p. 0),
      os_listdir = (\<lambda>p. None),
      shutil_which = (\<lambda>n. None),
      shlex_split = (\<lambda>s. Some (filter (\<lambda>w. w \<noteq> []) (py_split CHR '' '' s))),
      subprocess_run = (\<lambda>a. Raised (OSError ''No such file or directory'')),
      gamemode_available = False,
      get_steamapps_dirs = Some [],
      settings_RUNNER_DIR = ''/home/user/.local/share/lutris/runners'',
      fsr_option_memo = None\<rparr>"

definition tools_host :: host where
  "tools_host =
     bare_host\<lparr>shutil_which := (\<lambda>n. Some (''/usr/bin/'' @ n)), gamemode_available := True\<rparr>"

text \<open>
  A host with one Steam library, whose \<open>common\<close> directory holds Proton-8.0 with its
  \<open>dist/bin/wine\<close>, and nothing else.
\<close>

definition steam_host :: host where
  "steam_host =
     bare_host
       \<lparr>os_path_exists := (\<lambda>p. p = ''/steam/steamapps/common/Proton-8.0/dist/bin/wine''),
        os_path_isdir := (\<lambda>p. p = ''/steam/steamapps/common''),
        os_path_isfile := (\<lambda>p. p = ''/steam/steamapps/common/Proton-8.0/dist/bin/wine''),
        os_listdir := (\<lambda>p. if p = ''/steam/steamapps/common'' then Some [''Proton-8.0''] else None),
        get_steamapps_dirs := Some [''/steam/steamapps'']\<rparr>"

definition game_info :: gameplay_info where
  "game_info =
     \<lparr>gi_command = [PStr ''/games/doom/doom'', PStr ''-fullscreen''],
      gi_env = None, gi_ld_preload = PNone, gi_ld_library_path = PNone\<rparr>"

definition runner_with :: "pyval dict \<Rightarrow> runner" where
  "runner_with system_config = \<lparr>runner_system_config = system_config, runner_get_env = []\<rparr>"

section \<open>Projections used in the statements\<close>

text \<open>The string a call of \<open>get_overrides_env\<close> returns, and the caller's dictionary after it.\<close>

definition overrides_env_string :: "overrides \<Rightarrow> string option" where
  "overrides_env_string ov =
     (case snd (get_overrides_env ov) of Inr (ov', s) \<Rightarrow> Some s | Inl e \<Rightarrow> None)"

definition overrides_after :: "overrides \<Rightarrow> overrides option" where
  "overrides_after ov =
     (case snd (get_overrides_env ov) of Inr (ov', s) \<Rightarrow> Some ov' | Inl e \<Rightarrow> None)"

text \<open>
  The serialization in the words of the specification: the DLLs of each mode, sorted and
  joined by commas, followed by \<open>=mode\<close>; one such group per mode that has a DLL, in
  the order n,b / b,n / b / n / d / empty; the groups joined by semicolons.
\<close>

definition bucket_dlls :: "overrides \<Rightarrow> string \<Rightarrow> string list" where
  "bucket_dlls ov mode = map fst (filter (\<lambda>(dll, value). normalize_override value = mode) ov)"

definition override_group :: "overrides \<Rightarrow> string \<Rightarrow> string list" where
  "override_group ov mode =
     (if bucket_dlls ov mode = [] then []
      else [join '','' (py_sorted (bucket_dlls ov mode)) @ ''='' @ mode])"

definition overrides_by_buckets :: "overrides \<Rightarrow> string" where
  "overrides_by_buckets ov =
     join '';'' (concat (map (override_group ov) [''n,b'', ''b,n'', ''b'', ''n'', ''d'', []]))"

section \<open>Properties\<close>

lemmas result_defs = ret_def raise_def bind_def seq_def logger_def

lemmas overrides_defs =
  get_overrides_env_def dict_update_def default_overrides_def empty_buckets_def
  normalize_override_def py_sorted_def

subsection \<open>Results of computations\<close>

lemma snd_ret [simp]: "snd (ret x) = Inr x"
  by (simp add: ret_def)

lemma snd_raise [simp]: "snd (raise e) = Inl e"
  by (simp add: raise_def)

lemma snd_seq_logger [simp]: "snd (seq (logger lvl msg) k) = snd k"
  by (cases k) (simp add: seq_def bind_def logger_def)

lemma snd_bind_Inr:
  "snd (bind m f) = Inr y \<Longrightarrow> \<exists>x. snd m = Inr x \<and> snd (f x) = Inr y"
  by (auto simp: bind_def split: prod.splits sum.splits)

lemma snd_bind_Inl:
  "snd (bind m f) = Inl e \<Longrightarrow> snd m = Inl e \<or> (\<exists>x. snd m = Inr x \<and> snd (f x) = Inl e)"
  by (auto simp: bind_def split: prod.splits sum.splits)

lemma snd_bind_of_Inr: "snd m = Inr x \<Longrightarrow> snd (bind m f) = snd (f x)"
  by (cases m; cases "f x") (auto simp: bind_def)

lemma snd_bind_of_Inl: "snd m = Inl e \<Longrightarrow> snd (bind m f) = Inl e"
  by (cases m) (auto simp: bind_def)

lemma snd_bind_cong:
  "snd m = snd m' \<Longrightarrow> (\<And>x. snd m = Inr x \<Longrightarrow> snd (f x) = snd (f' x)) \<Longrightarrow>
     snd (bind m f) = snd (bind m' f')"
  by (cases m; cases m') (auto simp: bind_def split: prod.splits sum.splits)

subsection \<open>DLL overrides\<close>

lemma fill_buckets_returns: "\<exists>lg b. fill_buckets ov buckets = (lg, Inr b)"
proof (induction ov arbitrary: buckets)
  case Nil
  show ?case by (simp add: ret_def)
next
  case (Cons entry ov)
  obtain dll v where entry: "entry = (dll, v)" by (cases entry)
  show ?case
  proof (cases "map_of buckets (normalize_override v)")
    case None
    obtain lg b where "fill_buckets ov buckets = (lg, Inr b)" using Cons.IH by blast
    with None entry show ?thesis by (simp add: result_defs)
  next
    case (Some dlls)
    with entry Cons.IH show ?thesis by simp
  qed
qed

text \<open>
  C1.  For the mapping d3d9: native, mscoree: disabled the returned string is not
  \<open>d3d9=n;mscoree=d\<close>.
\<close>

theorem get_overrides_env_example_counterexample:
  "overrides_env_string [(''d3d9'', Some ''native''), (''mscoree'', Some ''disabled'')]
     \<noteq> Some ''d3d9=n;mscoree=d''"
  by (simp add: overrides_env_string_def overrides_defs result_defs Let_def)

text \<open>
  The loop over the dictionary fills each bucket with the DLLs whose rewritten value is
  the mode of the bucket, in the order of the dictionary.
\<close>

lemma update_distinct_map:
  "distinct (map fst bs) \<Longrightarrow> map_of bs k = Some d \<Longrightarrow>
     AList.update k (d @ x) bs = map (\<lambda>(b, ds). (b, if b = k then ds @ x else ds)) bs"
proof (induction bs)
  case Nil
  then show ?case by simp
next
  case (Cons p bs)
  obtain b ds where p: "p = (b, ds)" by (cases p)
  show ?case
  proof (cases "b = k")
    case True
    with Cons.prems p have "d = ds" by simp
    moreover have "map (\<lambda>(b, ds). (b, if b = k then ds @ x else ds)) bs = bs"
      using Cons.prems p True by (induction bs) (auto simp: rev_image_eqI)
    ultimately show ?thesis using p True by simp
  next
    case False
    with Cons p show ?thesis by simp
  qed
qed

lemma fill_buckets_by_filter:
  "distinct (map fst bs) \<Longrightarrow>
     snd (fill_buckets ov bs) = Inr (map (\<lambda>(b, ds). (b, ds @ bucket_dlls ov b)) bs)"
proof (induction ov arbitrary: bs)
  case Nil
  then show ?case by (simp add: bucket_dlls_def)
next
  case (Cons entry ov)
  obtain dll v where entry: "entry = (dll, v)" by (cases entry)
  show ?case
  proof (cases "map_of bs (normalize_override v)")
    case None
    then have "\<And>b ds. (b, ds) \<in> set bs \<Longrightarrow> normalize_override v \<noteq> b"
      by (metis map_of_eq_None_iff fst_conv image_eqI)
    then have "map (\<lambda>(b, ds). (b, ds @ bucket_dlls ((dll, v) # ov) b)) bs
                 = map (\<lambda>(b, ds). (b, ds @ bucket_dlls ov b)) bs"
      by (auto simp: bucket_dlls_def)
    with None entry Cons show ?thesis by simp
  next
    case (Some d)
    let ?k = "normalize_override v"
    have upd: "AList.update ?k (d @ [dll]) bs
                 = map (\<lambda>(b, ds). (b, if b = ?k then ds @ [dll] else ds)) bs"
      using update_distinct_map [OF Cons.prems Some] .
    have dist: "distinct (map fst (AList.update ?k (d @ [dll]) bs))"
      using Cons.prems by (simp add: distinct_update)
    have "snd (fill_buckets (entry # ov) bs)
            = snd (fill_buckets ov (AList.update ?k (d @ [dll]) bs))"
      using Some entry by simp
    also have "\<dots> = Inr (map (\<lambda>(b, ds). (b, ds @ bucket_dlls ov b))
                          (AList.update ?k (d @ [dll]) bs))"
      using Cons.IH [OF dist] .
    also have "map (\<lambda>(b, ds). (b, ds @ bucket_dlls ov b)) (AList.update ?k (d @ [dll]) bs)
                 = map (\<lambda>(b, ds). (b, ds @ bucket_dlls (entry # ov) b)) bs"
      unfolding upd using entry by (auto simp: bucket_dlls_def)
    finally show ?thesis .
  qed
qed

lemma override_strings_groups:
  "override_strings (map (\<lambda>mode. (mode, bucket_dlls ov mode)) modes)
     = concat (map (override_group ov) modes)"
  by (induction modes) (simp_all add: override_group_def)

lemma overrides_env_string_by_buckets:
  "overrides_env_string ov
     = Some (overrides_by_buckets (AList.update ''winemenubuilder'' (Some []) ov))"
proof -
  let ?ov = "AList.update ''winemenubuilder'' (Some []) ov"
  define filled where
    "filled = map (\<lambda>mode. (mode, bucket_dlls ?ov mode)) [''n,b'', ''b,n'', ''b'', ''n'', ''d'', []]"
  have "distinct (map fst empty_buckets)" by (simp add: empty_buckets_def)
  from fill_buckets_by_filter [OF this, of ?ov]
  have "snd (fill_buckets ?ov empty_buckets) = Inr filled"
    by (simp add: empty_buckets_def filled_def)
  then have "snd (bind (fill_buckets ?ov empty_buckets) (\<lambda>override_buckets.
               ret (?ov, join '';'' (override_strings override_buckets))))
          = Inr (?ov, join '';'' (override_strings filled))"
    by (simp only: snd_bind_of_Inr snd_ret)
  then have "overrides_env_string ov = Some (join '';'' (override_strings filled))"
    by (simp add: overrides_env_string_def get_overrides_env_def dict_update_def
        default_overrides_def Let_def)
  also have "override_strings filled
      = concat (map (override_group ?ov) [''n,b'', ''b,n'', ''b'', ''n'', ''d'', []])"
    unfolding filled_def by (rule override_strings_groups)
  finally show ?thesis by (simp only: overrides_by_buckets_def)
qed

text \<open>
  C1, as the code has it.  For the mapping d3d9: native, mscoree: disabled, in either
  insertion order, the returned string is exactly \<open>d3d9=n;mscoree,winemenubuilder=\<close>:
  the value \<open>disabled\<close> is rewritten to the empty mode, and the default entry
  winemenubuilder joins mscoree in the bucket of the empty mode, which comes last.  For
  every mapping, the returned string is the serialization by buckets of the mapping
  with the default entry added: bucket order n,b / b,n / b / n / d / empty, the DLLs of a
  bucket sorted, the groups joined by semicolons.
\<close>

theorem get_overrides_env_example:
  "overrides_env_string [(''d3d9'', Some ''native''), (''mscoree'', Some ''disabled'')]
     = Some ''d3d9=n;mscoree,winemenubuilder=''
   \<and> overrides_env_string [(''mscoree'', Some ''disabled''), (''d3d9'', Some ''native'')]
     = Some ''d3d9=n;mscoree,winemenubuilder=''
   \<and> overrides_env_string ov
     = Some (overrides_by_buckets (AList.update ''winemenubuilder'' (Some []) ov))"
proof (intro conjI)
  show "overrides_env_string [(''d3d9'', Some ''native''), (''mscoree'', Some ''disabled'')]
     = Some ''d3d9=n;mscoree,winemenubuilder=''"
    by (simp add: overrides_env_string_def overrides_defs result_defs Let_def)
  show "overrides_env_string [(''mscoree'', Some ''disabled''), (''d3d9'', Some ''native'')]
     = Some ''d3d9=n;mscoree,winemenubuilder=''"
    by (simp add: overrides_env_string_def overrides_defs result_defs Let_def)
  show "overrides_env_string ov
     = Some (overrides_by_buckets (AList.update ''winemenubuilder'' (Some []) ov))"
    by (rule overrides_env_string_by_buckets)
qed

text \<open>All six buckets at once, in the order of the table.\<close>

lemma get_overrides_env_all_buckets:
  "overrides_env_string
     [(''mscoree'', Some ''disabled''), (''d3d9'', Some ''native''),
      (''xinput'', Some ''native, builtin''), (''dinput'', Some ''builtin,native''),
      (''ddraw'', Some ''builtin''), (''dxgi'', Some ''d'')]
   = Some ''xinput=n,b;dinput=b,n;ddraw=b;d3d9=n;dxgi=d;mscoree,winemenubuilder=''"
  by (simp add: overrides_env_string_def overrides_defs result_defs Let_def)

text \<open>
  C10.  \<open>get_overrides_env\<close> always returns, and the caller's dictionary then maps
  winemenubuilder to the empty string and every other key to what it mapped to before.
\<close>

theorem get_overrides_env_mutates_argument:
  "\<exists>ov'. overrides_after ov = Some ov'
     \<and> map_of ov' ''winemenubuilder'' = Some (Some [])
     \<and> (\<forall>k. k \<noteq> ''winemenubuilder'' \<longrightarrow> map_of ov' k = map_of ov k)"
proof -
  obtain lg b where
    "fill_buckets (AList.update ''winemenubuilder'' (Some []) ov) empty_buckets = (lg, Inr b)"
    using fill_buckets_returns by blast
  then have "overrides_after ov = Some (AList.update ''winemenubuilder'' (Some []) ov)"
    by (simp add: overrides_after_def get_overrides_env_def dict_update_def
        default_overrides_def result_defs)
  then show ?thesis by (simp add: update_conv')
qed

theorem get_overrides_env_mutates_argument_witness:
  "map_of [(''d3d9'', Some ''native'')] ''winemenubuilder'' = None
   \<and> (\<exists>ov'. overrides_after [(''d3d9'', Some ''native'')] = Some ov'
        \<and> map_of ov' ''winemenubuilder'' = Some (Some [])
        \<and> map_of ov' ''d3d9'' = Some (Some ''native''))"
  using get_overrides_env_mutates_argument [of "[(''d3d9'', Some ''native'')]"]
  by auto

subsection \<open>Synchronous execution\<close>

lemma path_exists_returns: "\<exists>lg b. path_exists h p cs ee = (lg, Inr b)"
  by (auto simp add: path_exists_def result_defs Let_def)

text \<open>
  When starting the subprocess fails with \<open>OSError\<close> or \<open>TypeError\<close>, or the wait
  times out, \<open>_execute\<close> logs an error and returns the empty string.
\<close>

lemma private_execute_spawn_failure:
  assumes "\<forall>a. subprocess_run h a = Raised e"
    and "e = OSError m \<or> e = TypeError m \<or> e = TimeoutExpired"
  shows "\<exists>lg. private_execute h command env cwd capture_stderr quiet shell timeout = (lg, Inr (Str []))
           \<and> ERROR \<in> fst ` set lg"
proof -
  obtain lg b where pe: "path_exists h (hd command) False False = (lg, Inr b)"
    using path_exists_returns by blast
  show ?thesis
    using assms pe
    by (auto simp add: private_execute_def result_defs Let_def split: option.splits)
qed

text \<open>
  \<open>execute\<close> then unpacks that empty string into two names, which raises \<open>ValueError\<close>.
\<close>

lemma execute_spawn_failure:
  assumes "\<forall>a. subprocess_run h a = Raised e"
    and "e = OSError m \<or> e = TypeError m \<or> e = TimeoutExpired"
  shows "snd (execute h command env cwd quiet shell timeout)
           = Inl (ValueError ''not enough values to unpack'')"
proof -
  obtain lg where "private_execute h command env cwd False quiet shell timeout = (lg, Inr (Str []))"
    using private_execute_spawn_failure [OF assms] by blast
  then show ?thesis
    by (simp add: execute_def unpack2_def result_defs)
qed

text \<open>
  C2.  On a host where the subprocess cannot be started, and on one where the wait times
  out, \<open>execute\<close> raises \<open>ValueError\<close> to its caller; \<open>execute_with_error\<close> logs the
  error and returns the empty string.
\<close>

theorem execute_spawn_failure_example:
  "snd (execute bare_host [''ls''] None None False False None)
     = Inl (ValueError ''not enough values to unpack'')
   \<and> snd (execute (bare_host\<lparr>subprocess_run := (\<lambda>a. Raised TimeoutExpired)\<rparr>)
            [''ls''] None None False False (Some 5))
     = Inl (ValueError ''not enough values to unpack'')
   \<and> execute_with_error bare_host [''ls''] None None False False None
     = ([(DEBUG, ''Executing %s''), (ERROR, ''Could not run command %s (env: %s): %s'')],
        Inr (Str []))"
  by (simp add: execute_def execute_with_error_def private_execute_def unpack2_def bare_host_def
      os_path_isabs_def startswith_def get_environment_def result_defs Let_def)

subsection \<open>Resolving a Wine version\<close>

lemma add_system_wine_custom:
  "map_of paths ''custom'' = None \<Longrightarrow> map_of (add_system_wine h paths c) ''custom'' = None"
  by (simp add: add_system_wine_def Let_def update_conv')

lemma foldl_add_system_wine_custom:
  "map_of paths ''custom'' = None \<Longrightarrow> map_of (foldl (add_system_wine h) paths cs) ''custom'' = None"
  by (induction cs arbitrary: paths) (simp_all add: add_system_wine_custom)

lemma WINE_PATHS_custom: "map_of (WINE_PATHS h) ''custom'' = None"
  by (simp add: WINE_PATHS_def WINE_PATHS_static_def foldl_add_system_wine_custom
      split: option.splits)

lemma resolve_custom:
  "resolve_version_string h ''custom'' config = custom_wine_path config"
  by (simp add: resolve_version_string_def WINE_PATHS_custom startswith_def result_defs)

text \<open>
  C5.  Resolving the version \<open>custom\<close> raises \<open>RuntimeError\<close> when no configuration is
  given and when its custom wine path is missing or empty; with a non-empty custom wine
  path it returns that path.  No system build is named \<open>custom\<close>, on any host.
\<close>

theorem custom_version_requires_path:
  "snd (get_wine_path_for_version h (PStr ''custom'') None)
     = Inl (RuntimeError ''Custom wine paths are only supported when a configuration is available.'')
   \<and> (\<not> truthy (dict_get cfg ''custom_wine_path'') \<longrightarrow>
        snd (get_wine_path_for_version h (PStr ''custom'') (Some cfg))
          = Inl (RuntimeError
              ''The 'custom' Wine version can be used only if the custom wine path is set.''))
   \<and> (truthy (dict_get cfg ''custom_wine_path'') \<longrightarrow>
        snd (get_wine_path_for_version h (PStr ''custom'') (Some cfg))
          = Inr (dict_get cfg ''custom_wine_path''))"
  by (simp add: get_wine_path_for_version_def resolve_custom custom_wine_path_def result_defs)

theorem custom_version_requires_path_witness:
  "\<not> truthy (dict_get [(''custom_wine_path'', PStr [])] ''custom_wine_path'')
   \<and> snd (get_wine_path_for_version bare_host (PStr ''custom'')
            (Some [(''custom_wine_path'', PStr [])]))
       = Inl (RuntimeError
              ''The 'custom' Wine version can be used only if the custom wine path is set.'')
   \<and> truthy (dict_get [(''custom_wine_path'', PStr ''/opt/wine/bin/wine'')] ''custom_wine_path'')
   \<and> snd (get_wine_path_for_version bare_host (PStr ''custom'')
            (Some [(''custom_wine_path'', PStr ''/opt/wine/bin/wine'')]))
       = Inr (PStr ''/opt/wine/bin/wine'')"
  using custom_version_requires_path [of bare_host "[(''custom_wine_path'', PStr [])]"]
    custom_version_requires_path [of bare_host "[(''custom_wine_path'', PStr ''/opt/wine/bin/wine'')]"]
  by (simp add: dict_get_def)

lemma join2_nonempty: "b \<noteq> [] \<Longrightarrow> join2 path b \<noteq> []"
  by (simp add: join2_def)

lemma os_path_join_nonempty: "b \<noteq> [] \<Longrightarrow> os_path_join a [x, b] \<noteq> []"
  by (simp add: os_path_join_def join2_nonempty)

lemma find_proton_wine_isfile:
  "find_proton_wine h version paths = Some p \<Longrightarrow> os_path_isfile h p \<and> p \<noteq> []"
  by (induction paths) (auto simp: os_path_join_nonempty split: if_splits)

lemma find_executable_Inr:
  "snd (find_executable h name) = Inr exe \<Longrightarrow> shutil_which h name = Some exe \<and> exe \<noteq> []"
  by (auto simp: find_executable_def result_defs split: option.splits if_splits)

lemma custom_wine_path_Inr:
  "snd (custom_wine_path config) = Inr v \<Longrightarrow>
     truthy v \<and> (\<exists>cfg. config = Some cfg \<and> v = dict_get cfg ''custom_wine_path'')"
  by (auto simp: custom_wine_path_def result_defs Let_def split: option.splits if_splits)

text \<open>
  What \<open>resolve_version_string\<close> returns is truthy, and it is the executable found on the
  search path for a build of the table, or an existing file for a Proton version, or the
  configured custom path, or else the path under \<open>WINE_DIR\<close>.
\<close>

lemma resolve_version_string_Inr:
  assumes "snd (resolve_version_string h ver config) = Inr v"
  shows "truthy v
         \<and> ((\<exists>build exe. map_of (WINE_PATHS h) ver = Some build
                \<and> shutil_which h build = Some exe \<and> v = PStr exe)
            \<or> (\<exists>p. contains ''Proton'' ver \<and> os_path_isfile h p \<and> v = PStr p)
            \<or> (\<exists>cfg. ver = ''custom'' \<and> config = Some cfg
                  \<and> v = dict_get cfg ''custom_wine_path'')
            \<or> v = PStr (os_path_join (WINE_DIR h) [ver, ''bin/wine'']))"
proof (cases "map_of (WINE_PATHS h) ver")
  case (Some build)
  with assms obtain exe where "snd (find_executable h build) = Inr exe" "v = PStr exe"
    by (auto simp: resolve_version_string_def dest!: snd_bind_Inr)
  then show ?thesis
    using Some find_executable_Inr [of h build exe] by auto
next
  case None
  with assms obtain proton where
    pr: "snd (if contains ''Proton'' ver
           then bind (get_proton_paths h) (\<lambda>paths. ret (find_proton_wine h ver paths))
           else ret None) = Inr proton"
    and rest: "snd (case proton of
            Some wine \<Rightarrow> ret (PStr wine)
          | None \<Rightarrow>
              if ver = ''custom'' then custom_wine_path config
              else ret (PStr (os_path_join (WINE_DIR h) [ver, ''bin/wine'']))) = Inr v"
    by (auto simp: resolve_version_string_def dest!: snd_bind_Inr)
  show ?thesis
  proof (cases proton)
    case (Some wine)
    with pr have "contains ''Proton'' ver" by (auto split: if_splits)
    moreover from pr Some obtain paths where "find_proton_wine h ver paths = Some wine"
      by (auto split: if_splits dest!: snd_bind_Inr)
    ultimately show ?thesis using rest Some find_proton_wine_isfile [of h ver _ wine]
      by auto
  next
    case None
    with rest show ?thesis
      using custom_wine_path_Inr [of config v]
      by (auto simp: os_path_join_nonempty split: if_splits)
  qed
qed

text \<open>
  C6.  On a host where no path exists, the version \<open>lutris-7.0\<close> resolves to a path
  under the Lutris runner directory although no file is there.
\<close>

theorem get_wine_path_for_version_unverified_counterexample:
  "snd (get_wine_path_for_version bare_host (PStr ''lutris-7.0'') None)
     = Inr (PStr ''/home/user/.local/share/lutris/runners/wine/lutris-7.0/bin/wine'')
   \<and> \<not> os_path_exists bare_host ''/home/user/.local/share/lutris/runners/wine/lutris-7.0/bin/wine''
   \<and> \<not> os_path_isfile bare_host ''/home/user/.local/share/lutris/runners/wine/lutris-7.0/bin/wine''"
  by (simp add: get_wine_path_for_version_def resolve_version_string_def WINE_PATHS_def
      WINE_PATHS_static_def WINE_DIR_def os_path_join_def join2_def startswith_def
      bare_host_def result_defs)

text \<open>
  What the loop over the Proton locations finds is an existing file \<open>dist/bin/wine\<close> or
  \<open>files/bin/wine\<close> of the version in one of the locations; it finds nothing only when
  no location has either file.
\<close>

lemma find_proton_wine_Some:
  "find_proton_wine h ver paths = Some p \<Longrightarrow>
     \<exists>proton_path. proton_path \<in> set paths
        \<and> (p = os_path_join proton_path [ver, ''dist/bin/wine'']
             \<or> p = os_path_join proton_path [ver, ''files/bin/wine''])
        \<and> os_path_isfile h p"
  by (induction paths) (auto split: if_splits)

lemma find_proton_wine_None:
  "find_proton_wine h ver paths = None \<Longrightarrow> proton_path \<in> set paths \<Longrightarrow>
     \<not> os_path_isfile h (os_path_join proton_path [ver, ''dist/bin/wine''])
     \<and> \<not> os_path_isfile h (os_path_join proton_path [ver, ''files/bin/wine''])"
  by (induction paths) (auto split: if_splits)

lemma resolve_version_string_table:
  assumes "map_of (WINE_PATHS h) ver = Some build"
    and "snd (resolve_version_string h ver config) = Inr v"
  shows "\<exists>exe. shutil_which h build = Some exe \<and> exe \<noteq> [] \<and> v = PStr exe"
proof -
  from assms obtain exe where "snd (find_executable h build) = Inr exe" "v = PStr exe"
    by (auto simp: resolve_version_string_def dest!: snd_bind_Inr)
  then show ?thesis using find_executable_Inr [of h build exe] by auto
qed

lemma resolve_version_string_proton:
  assumes "map_of (WINE_PATHS h) ver = None" and "contains ''Proton'' ver"
    and "snd (resolve_version_string h ver config) = Inr v"
  shows "\<exists>paths. snd (get_proton_paths h) = Inr paths
           \<and> ((\<exists>proton_path p. proton_path \<in> set paths
                   \<and> (p = os_path_join proton_path [ver, ''dist/bin/wine'']
                        \<or> p = os_path_join proton_path [ver, ''files/bin/wine''])
                   \<and> os_path_isfile h p \<and> v = PStr p)
                \<or> ((\<forall>proton_path. proton_path \<in> set paths \<longrightarrow>
                       \<not> os_path_isfile h (os_path_join proton_path [ver, ''dist/bin/wine''])
                       \<and> \<not> os_path_isfile h (os_path_join proton_path [ver, ''files/bin/wine'']))
                    \<and> v = PStr (os_path_join (WINE_DIR h) [ver, ''bin/wine''])))"
proof -
  have nc: "ver \<noteq> ''custom''" using assms(2) by (auto simp: startswith_def)
  from assms obtain paths where gp: "snd (get_proton_paths h) = Inr paths"
    and rest: "snd (case find_proton_wine h ver paths of
            Some wine \<Rightarrow> ret (PStr wine)
          | None \<Rightarrow>
              if ver = ''custom'' then custom_wine_path config
              else ret (PStr (os_path_join (WINE_DIR h) [ver, ''bin/wine'']))) = Inr v"
    by (auto simp: resolve_version_string_def dest!: snd_bind_Inr)
  show ?thesis
  proof (cases "find_proton_wine h ver paths")
    case None
    with rest nc have "v = PStr (os_path_join (WINE_DIR h) [ver, ''bin/wine''])" by simp
    with gp find_proton_wine_None [OF None] show ?thesis by blast
  next
    case (Some p)
    with rest have "v = PStr p" by simp
    with gp find_proton_wine_Some [OF Some] show ?thesis by blast
  qed
qed

lemma resolve_version_string_other:
  assumes "map_of (WINE_PATHS h) ver = None" and "\<not> contains ''Proton'' ver"
  shows "resolve_version_string h ver config
           = (if ver = ''custom'' then custom_wine_path config
              else ret (PStr (os_path_join (WINE_DIR h) [ver, ''bin/wine''])))"
  using assms by (simp add: resolve_version_string_def result_defs)

text \<open>
  C6, as the code has it.  Whenever \<open>get_wine_path_for_version\<close> returns, the value is
  truthy (never an empty path), and for the version string \<open>ver\<close> that was asked for,
  directly or through the configuration, case by case: when \<open>ver\<close> names a build of
  the table of system builds, the value is the executable that the search path holds for
  that build; when \<open>ver\<close> is a Proton version (and no table name), the value is an
  existing file \<open>dist/bin/wine\<close> or \<open>files/bin/wine\<close> of that version in one of
  the Proton locations, or, when no location has such a file, the path
  \<open>WINE_DIR/ver/bin/wine\<close>; when \<open>ver\<close> is \<open>custom\<close>, the value is the
  configured custom path; for every other \<open>ver\<close> the value is the path
  \<open>WINE_DIR/ver/bin/wine\<close> of the Lutris-managed directory, whose existence is not
  checked.
\<close>

theorem get_wine_path_for_version_result:
  assumes "snd (get_wine_path_for_version h version config) = Inr v"
  shows "truthy v
       \<and> (\<exists>ver. ver \<noteq> []
            \<and> (version = PStr ver
                \<or> (\<not> truthy version
                    \<and> (\<exists>cfg. config = Some cfg \<and> map_of cfg ''version'' = Some (PStr ver))))
            \<and> (\<forall>build. map_of (WINE_PATHS h) ver = Some build \<longrightarrow>
                  (\<exists>exe. shutil_which h build = Some exe \<and> v = PStr exe))
            \<and> (map_of (WINE_PATHS h) ver = None \<and> contains ''Proton'' ver \<longrightarrow>
                  (\<exists>paths. snd (get_proton_paths h) = Inr paths
                     \<and> ((\<exists>proton_path p. proton_path \<in> set paths
                            \<and> (p = os_path_join proton_path [ver, ''dist/bin/wine'']
                                 \<or> p = os_path_join proton_path [ver, ''files/bin/wine''])
                            \<and> os_path_isfile h p \<and> v = PStr p)
                         \<or> ((\<forall>proton_path. proton_path \<in> set paths \<longrightarrow>
                                \<not> os_path_isfile h
                                     (os_path_join proton_path [ver, ''dist/bin/wine''])
                                \<and> \<not> os_path_isfile h
                                       (os_path_join proton_path [ver, ''files/bin/wine'']))
                             \<and> v = PStr (os_path_join (WINE_DIR h) [ver, ''bin/wine''])))))
            \<and> (ver = ''custom'' \<longrightarrow>
                  (\<exists>cfg. config = Some cfg \<and> v = dict_get cfg ''custom_wine_path''))
            \<and> (map_of (WINE_PATHS h) ver = None \<and> \<not> contains ''Proton'' ver
                  \<and> ver \<noteq> ''custom'' \<longrightarrow>
                  v = PStr (os_path_join (WINE_DIR h) [ver, ''bin/wine''])))"
proof -
  from assms obtain version' where
    eff: "snd (case config of
             None \<Rightarrow> ret version
           | Some cfg \<Rightarrow>
               if \<not> truthy version \<and> cfg \<noteq> []
               then (case map_of cfg ''version'' of
                       None \<Rightarrow> raise (KeyError ''version'')
                     | Some v \<Rightarrow> ret v)
               else ret version) = Inr version'"
    and res: "snd (if \<not> truthy version' then
                 raise (UnspecifiedVersionError ''The Wine version must be specified.'')
               else
                 case version' of
                   PStr v \<Rightarrow> resolve_version_string h v config
                 | _ \<Rightarrow> raise (TypeError ''argument of type is not iterable'')) = Inr v"
    unfolding get_wine_path_for_version_def by (auto dest!: snd_bind_Inr)
  from res obtain ver where ver: "version' = PStr ver" "ver \<noteq> []"
    and rv: "snd (resolve_version_string h ver config) = Inr v"
    by (cases version') (auto split: if_splits)
  from eff ver have src: "version = PStr ver
      \<or> (\<not> truthy version \<and> (\<exists>cfg. config = Some cfg \<and> map_of cfg ''version'' = Some (PStr ver)))"
    by (auto split: option.splits if_splits)
  have tr: "truthy v" using resolve_version_string_Inr [OF rv] by blast
  have tab: "\<forall>build. map_of (WINE_PATHS h) ver = Some build \<longrightarrow>
                  (\<exists>exe. shutil_which h build = Some exe \<and> v = PStr exe)"
    using resolve_version_string_table [OF _ rv] by blast
  have cus: "ver = ''custom'' \<longrightarrow>
                  (\<exists>cfg. config = Some cfg \<and> v = dict_get cfg ''custom_wine_path'')"
  proof
    assume "ver = ''custom''"
    with rv have "snd (custom_wine_path config) = Inr v" by (simp add: resolve_custom)
    from custom_wine_path_Inr [OF this]
    show "\<exists>cfg. config = Some cfg \<and> v = dict_get cfg ''custom_wine_path''" by blast
  qed
  have oth: "map_of (WINE_PATHS h) ver = None \<and> \<not> contains ''Proton'' ver
                  \<and> ver \<noteq> ''custom'' \<longrightarrow>
                  v = PStr (os_path_join (WINE_DIR h) [ver, ''bin/wine''])"
  proof
    assume a: "map_of (WINE_PATHS h) ver = None \<and> \<not> contains ''Proton'' ver \<and> ver \<noteq> ''custom''"
    then have "resolve_version_string h ver config
                 = ret (PStr (os_path_join (WINE_DIR h) [ver, ''bin/wine'']))"
      using resolve_version_string_other [of h ver config] by simp
    with rv show "v = PStr (os_path_join (WINE_DIR h) [ver, ''bin/wine''])" by simp
  qed
  have pro: "map_of (WINE_PATHS h) ver = None \<and> contains ''Proton'' ver \<longrightarrow>
                  (\<exists>paths. snd (get_proton_paths h) = Inr paths
                     \<and> ((\<exists>proton_path p. proton_path \<in> set paths
                            \<and> (p = os_path_join proton_path [ver, ''dist/bin/wine'']
                                 \<or> p = os_path_join proton_path [ver, ''files/bin/wine''])
                            \<and> os_path_isfile h p \<and> v = PStr p)
                         \<or> ((\<forall>proton_path. proton_path \<in> set paths \<longrightarrow>
                                \<not> os_path_isfile h
                                     (os_path_join proton_path [ver, ''dist/bin/wine''])
                                \<and> \<not> os_path_isfile h
                                       (os_path_join proton_path [ver, ''files/bin/wine'']))
                             \<and> v = PStr (os_path_join (WINE_DIR h) [ver, ''bin/wine'']))))"
  proof
    assume a: "map_of (WINE_PATHS h) ver = None \<and> contains ''Proton'' ver"
    from a have a1: "map_of (WINE_PATHS h) ver = None" and a2: "contains ''Proton'' ver"
      by simp_all
    from resolve_version_string_proton [OF a1 a2 rv]
    show "\<exists>paths. snd (get_proton_paths h) = Inr paths
                     \<and> ((\<exists>proton_path p. proton_path \<in> set paths
                            \<and> (p = os_path_join proton_path [ver, ''dist/bin/wine'']
                                 \<or> p = os_path_join proton_path [ver, ''files/bin/wine''])
                            \<and> os_path_isfile h p \<and> v = PStr p)
                         \<or> ((\<forall>proton_path. proton_path \<in> set paths \<longrightarrow>
                                \<not> os_path_isfile h
                                     (os_path_join proton_path [ver, ''dist/bin/wine''])
                                \<and> \<not> os_path_isfile h
                                       (os_path_join proton_path [ver, ''files/bin/wine'']))
                             \<and> v = PStr (os_path_join (WINE_DIR h) [ver, ''bin/wine''])))" .
  qed
  show ?thesis
    apply (rule conjI [OF tr])
    apply (rule exI [of _ ver])
    apply (intro conjI)
         apply (rule ver(2))
        apply (rule src)
       apply (rule tab)
      apply (rule pro)
     apply (rule cus)
    apply (rule oth)
    done
qed

theorem get_wine_path_for_version_result_witness:
  "snd (get_wine_path_for_version tools_host (PStr ''system'') None) = Inr (PStr ''/usr/bin/wine'')
   \<and> map_of (WINE_PATHS tools_host) ''system'' = Some ''wine''
   \<and> shutil_which tools_host ''wine'' = Some ''/usr/bin/wine''
   \<and> snd (get_wine_path_for_version steam_host (PStr ''Proton-8.0'') None)
       = Inr (PStr ''/steam/steamapps/common/Proton-8.0/dist/bin/wine'')
   \<and> map_of (WINE_PATHS steam_host) ''Proton-8.0'' = None
   \<and> contains ''Proton'' ''Proton-8.0''
   \<and> snd (get_proton_paths steam_host) = Inr [''/steam/steamapps/common'']
   \<and> os_path_isfile steam_host ''/steam/steamapps/common/Proton-8.0/dist/bin/wine''
   \<and> snd (get_wine_path_for_version bare_host (PStr ''custom'')
            (Some [(''custom_wine_path'', PStr ''/opt/wine/bin/wine'')]))
       = Inr (PStr ''/opt/wine/bin/wine'')
   \<and> snd (get_wine_path_for_version bare_host (PStr ''lutris-7.0'') None)
       = Inr (PStr ''/home/user/.local/share/lutris/runners/wine/lutris-7.0/bin/wine'')
   \<and> map_of (WINE_PATHS bare_host) ''lutris-7.0'' = None
   \<and> \<not> contains ''Proton'' ''lutris-7.0''
   \<and> truthy (PStr ''/usr/bin/wine'')
   \<and> truthy (PStr ''/steam/steamapps/common/Proton-8.0/dist/bin/wine'')
   \<and> truthy (PStr ''/opt/wine/bin/wine'')
   \<and> truthy (PStr ''/home/user/.local/share/lutris/runners/wine/lutris-7.0/bin/wine'')"
proof -
  have r1: "snd (get_wine_path_for_version tools_host (PStr ''system'') None)
              = Inr (PStr ''/usr/bin/wine'')"
    by code_simp
  have r2: "snd (get_wine_path_for_version steam_host (PStr ''Proton-8.0'') None)
              = Inr (PStr ''/steam/steamapps/common/Proton-8.0/dist/bin/wine'')"
    by code_simp
  have r3: "snd (get_wine_path_for_version bare_host (PStr ''custom'')
                   (Some [(''custom_wine_path'', PStr ''/opt/wine/bin/wine'')]))
              = Inr (PStr ''/opt/wine/bin/wine'')"
    by code_simp
  have r4: "snd (get_wine_path_for_version bare_host (PStr ''lutris-7.0'') None)
              = Inr (PStr ''/home/user/.local/share/lutris/runners/wine/lutris-7.0/bin/wine'')"
    by code_simp
  have t1: "truthy (PStr ''/usr/bin/wine'')"
    using get_wine_path_for_version_result [OF r1] by blast
  have t2: "truthy (PStr ''/steam/steamapps/common/Proton-8.0/dist/bin/wine'')"
    using get_wine_path_for_version_result [OF r2] by blast
  have t3: "truthy (PStr ''/opt/wine/bin/wine'')"
    using get_wine_path_for_version_result [OF r3] by blast
  have t4: "truthy (PStr ''/home/user/.local/share/lutris/runners/wine/lutris-7.0/bin/wine'')"
    using get_wine_path_for_version_result [OF r4] by blast
  have f1: "map_of (WINE_PATHS tools_host) ''system'' = Some ''wine''"
    and f2: "shutil_which tools_host ''wine'' = Some ''/usr/bin/wine''"
    and f3: "map_of (WINE_PATHS steam_host) ''Proton-8.0'' = None"
    and f4: "contains ''Proton'' ''Proton-8.0''"
    and f5: "snd (get_proton_paths steam_host) = Inr [''/steam/steamapps/common'']"
    and f6: "os_path_isfile steam_host ''/steam/steamapps/common/Proton-8.0/dist/bin/wine''"
    and f7: "map_of (WINE_PATHS bare_host) ''lutris-7.0'' = None"
    and f8: "\<not> contains ''Proton'' ''lutris-7.0''"
    by code_simp+
  from r1 f1 f2 r2 f3 f4 f5 f6 r3 r4 f7 f8 t1 t2 t3 t4 show ?thesis
    by (intro conjI)
qed

subsection \<open>The launch pipeline\<close>

lemma steam_compatibility_returns: "\<exists>env'. snd (steam_compatibility h env) = Inr env'"
  by (simp add: steam_compatibility_def split: option.splits)

lemma get_launch_parameters_InrD:
  assumes "snd (get_launch_parameters h r gi) = Inr (args, env)"
  shows "\<exists>env1 env2 a5 a6 a7.
           snd (steam_compatibility h [(''DISABLE_LAYER_AMD_SWITCHABLE_GRAPHICS_1'', PStr ''1'')])
             = Inr env1
         \<and> snd (set_locale (runner_system_config r) env1) = Inr env2
         \<and> snd (libstrangle_stage h (runner_system_config r)
                  (fst (mangohud_stage h (runner_system_config r)
                     (optimus_stage h (runner_system_config r) (gi_command gi), env2)))) = Inr a5
         \<and> snd (prefix_command_stage h (runner_system_config r) a5) = Inr a6
         \<and> snd (single_cpu_stage (runner_system_config r) a6) = Inr a7
         \<and> snd (ld_stage gi (merge_env r gi
                  (snd (mangohud_stage h (runner_system_config r)
                     (optimus_stage h (runner_system_config r) (gi_command gi), env2))))) = Inr env
         \<and> snd (gamescope_stage h (runner_system_config r)
                  (gamemode_stage h (runner_system_config r) a7)) = Inr args"
  using assms
  unfolding get_launch_parameters_def Let_def split_beta
  by (fastforce dest!: snd_bind_Inr)

lemma get_gamescope_args_InrD:
  assumes "snd (get_gamescope_args h la cfg) = Inr args"
  shows "\<exists>la1 la2 la3 la4.
      snd (if truthy (dict_get cfg ''gamescope_fsr_sharpness'')
            then bind (private_get_gamescope_fsr_option h) (\<lambda>fsr_option.
                 ret (map PStr fsr_option
                      @ PStr ''--fsr-sharpness''
                      # dict_get cfg ''gamescope_fsr_sharpness''
                      # (if truthy (dict_get cfg ''gamescope_force_grab_cursor'')
                         then PStr ''--force-grab-cursor'' # PStr ''--'' # la
                         else PStr ''--'' # la)))
            else ret (if truthy (dict_get cfg ''gamescope_force_grab_cursor'')
                         then PStr ''--force-grab-cursor'' # PStr ''--'' # la
                         else PStr ''--'' # la)) = Inr la1
    \<and> snd (if truthy (dict_get cfg ''gamescope_flags'')
            then bind (split_flags h (dict_get cfg ''gamescope_flags'')) (\<lambda>gamescope_flags.
                 ret (gamescope_flags @ la1))
            else ret la1) = Inr la2
    \<and> snd (if truthy (dict_get cfg ''gamescope_output_res'')
            then bind (split_resolution (dict_get cfg ''gamescope_output_res''))
                   (\<lambda>(output_width, output_height).
                 ret (PStr ''-W'' # PStr output_width # PStr ''-H'' # PStr output_height
                      # (if truthy (dict_get cfg ''gamescope_fps_limiter'')
                         then PStr ''-r'' # dict_get cfg ''gamescope_fps_limiter''
                              # (if truthy (dict_get cfg ''gamescope_window_mode'')
                                 then dict_get cfg ''gamescope_window_mode'' # la2 else la2)
                         else (if truthy (dict_get cfg ''gamescope_window_mode'')
                                 then dict_get cfg ''gamescope_window_mode'' # la2 else la2))))
            else ret (if truthy (dict_get cfg ''gamescope_fps_limiter'')
                         then PStr ''-r'' # dict_get cfg ''gamescope_fps_limiter''
                              # (if truthy (dict_get cfg ''gamescope_window_mode'')
                                 then dict_get cfg ''gamescope_window_mode'' # la2 else la2)
                         else (if truthy (dict_get cfg ''gamescope_window_mode'')
                                 then dict_get cfg ''gamescope_window_mode'' # la2 else la2))) = Inr la3
    \<and> snd (if truthy (dict_get cfg ''gamescope_game_res'')
            then bind (split_resolution (dict_get cfg ''gamescope_game_res''))
                   (\<lambda>(game_width, game_height).
                 ret (PStr ''-w'' # PStr game_width # PStr ''-h'' # PStr game_height # la3))
            else ret la3) = Inr la4
    \<and> args = PStr ''gamescope'' # la4"
  using assms
  unfolding get_gamescope_args_def Let_def
  apply -
  apply (drule snd_bind_Inr, elim exE conjE)
  apply (drule snd_bind_Inr, elim exE conjE)
  apply (drule snd_bind_Inr, elim exE conjE)
  apply (drule snd_bind_Inr, elim exE conjE)
  apply (intro exI conjI)
      apply assumption+
  apply simp
  done

lemma get_gamescope_args_shape:
  assumes "snd (get_gamescope_args h la cfg) = Inr args"
  shows "\<exists>pre. args = PStr ''gamescope'' # pre @ PStr ''--'' # la"
proof -
  from get_gamescope_args_InrD [OF assms] obtain la1 la2 la3 la4 where
    s1: "snd (if truthy (dict_get cfg ''gamescope_fsr_sharpness'')
            then bind (private_get_gamescope_fsr_option h) (\<lambda>fsr_option.
                 ret (map PStr fsr_option
                      @ PStr ''--fsr-sharpness''
                      # dict_get cfg ''gamescope_fsr_sharpness''
                      # (if truthy (dict_get cfg ''gamescope_force_grab_cursor'')
                         then PStr ''--force-grab-cursor'' # PStr ''--'' # la
                         else PStr ''--'' # la)))
            else ret (if truthy (dict_get cfg ''gamescope_force_grab_cursor'')
                         then PStr ''--force-grab-cursor'' # PStr ''--'' # la
                         else PStr ''--'' # la)) = Inr la1"
    and s2: "snd (if truthy (dict_get cfg ''gamescope_flags'')
            then bind (split_flags h (dict_get cfg ''gamescope_flags'')) (\<lambda>gamescope_flags.
                 ret (gamescope_flags @ la1))
            else ret la1) = Inr la2"
    and s3: "snd (if truthy (dict_get cfg ''gamescope_output_res'')
            then bind (split_resolution (dict_get cfg ''gamescope_output_res''))
                   (\<lambda>(output_width, output_height).
                 ret (PStr ''-W'' # PStr output_width # PStr ''-H'' # PStr output_height
                      # (if truthy (dict_get cfg ''gamescope_fps_limiter'')
                         then PStr ''-r'' # dict_get cfg ''gamescope_fps_limiter''
                              # (if truthy (dict_get cfg ''gamescope_window_mode'')
                                 then dict_get cfg ''gamescope_window_mode'' # la2 else la2)
                         else (if truthy (dict_get cfg ''gamescope_window_mode'')
                                 then dict_get cfg ''gamescope_window_mode'' # la2 else la2))))
            else ret (if truthy (dict_get cfg ''gamescope_fps_limiter'')
                         then PStr ''-r'' # dict_get cfg ''gamescope_fps_limiter''
                              # (if truthy (dict_get cfg ''gamescope_window_mode'')
                                 then dict_get cfg ''gamescope_window_mode'' # la2 else la2)
                         else (if truthy (dict_get cfg ''gamescope_window_mode'')
                                 then dict_get cfg ''gamescope_window_mode'' # la2 else la2))) = Inr la3"
    and s4: "snd (if truthy (dict_get cfg ''gamescope_game_res'')
            then bind (split_resolution (dict_get cfg ''gamescope_game_res''))
                   (\<lambda>(game_width, game_height).
                 ret (PStr ''-w'' # PStr game_width # PStr ''-h'' # PStr game_height # la3))
            else ret la3) = Inr la4"
    and a: "args = PStr ''gamescope'' # la4"
    by blast
  from s1 obtain p1 where p1: "la1 = p1 @ PStr ''--'' # la"
    by (cases "truthy (dict_get cfg ''gamescope_fsr_sharpness'')";
        cases "truthy (dict_get cfg ''gamescope_force_grab_cursor'')")
       (auto dest!: snd_bind_Inr)
  from s2 obtain p2 where p2: "la2 = p2 @ la1"
    by (cases "truthy (dict_get cfg ''gamescope_flags'')") (auto dest!: snd_bind_Inr)
  from s3 obtain p3 where p3: "la3 = p3 @ la2"
    by (cases "truthy (dict_get cfg ''gamescope_output_res'')";
        cases "truthy (dict_get cfg ''gamescope_fps_limiter'')";
        cases "truthy (dict_get cfg ''gamescope_window_mode'')")
       (auto dest!: snd_bind_Inr)
  from s4 obtain p4 where p4: "la4 = p4 @ la3"
    by (cases "truthy (dict_get cfg ''gamescope_game_res'')") (auto dest!: snd_bind_Inr)
  have "args = PStr ''gamescope'' # (p4 @ p3 @ p2 @ p1) @ PStr ''--'' # la"
    using a p1 p2 p3 p4 by simp
  then show ?thesis by blast
qed

subsection \<open>The gamemode and gamescope wrappers\<close>

text \<open>
  C3.  Whenever \<open>get_launch_parameters\<close> returns for a configuration with gamemode
  enabled on a host where gamemode is available: with gamescope disabled, token 0 of the
  vector is \<open>gamemoderun\<close>; with gamescope enabled and found, token 0 is
  \<open>gamescope\<close> and \<open>gamemoderun\<close> comes right after the \<open>--\<close> that closes the
  gamescope prefix.
\<close>

theorem gamemode_wrapper_position:
  assumes "snd (get_launch_parameters h r gi) = Inr (args, env)"
    and "truthy (dict_get (runner_system_config r) ''gamemode'')"
    and "gamemode_available h"
  shows "(\<not> truthy (dict_get (runner_system_config r) ''gamescope'') \<longrightarrow>
            (\<exists>rest. args = PStr ''gamemoderun'' # rest))
       \<and> (truthy (dict_get (runner_system_config r) ''gamescope'')
            \<and> can_find_executable h ''gamescope'' \<longrightarrow>
            (\<exists>pre rest. args = PStr ''gamescope'' # pre @ PStr ''--'' # PStr ''gamemoderun'' # rest))"
proof -
  from get_launch_parameters_InrD [OF assms(1)] obtain a7 where
    gs: "snd (gamescope_stage h (runner_system_config r)
               (gamemode_stage h (runner_system_config r) a7)) = Inr args"
    by blast
  have gm: "gamemode_stage h (runner_system_config r) a7 = PStr ''gamemoderun'' # a7"
    using assms(2,3) by (simp add: gamemode_stage_def)
  show ?thesis
  proof (intro conjI impI)
    assume "\<not> truthy (dict_get (runner_system_config r) ''gamescope'')"
    with gs gm show "\<exists>rest. args = PStr ''gamemoderun'' # rest"
      by (auto simp add: gamescope_stage_def)
  next
    assume "truthy (dict_get (runner_system_config r) ''gamescope'')
            \<and> can_find_executable h ''gamescope''"
    with gs gm have "snd (get_gamescope_args h (PStr ''gamemoderun'' # a7) (runner_system_config r))
                       = Inr args"
      by (simp add: gamescope_stage_def)
    from get_gamescope_args_shape [OF this]
    show "\<exists>pre rest. args = PStr ''gamescope'' # pre @ PStr ''--'' # PStr ''gamemoderun'' # rest"
      by blast
  qed
qed

theorem gamemode_wrapper_position_witness:
  "snd (get_launch_parameters tools_host
          (runner_with [(''locale'', PStr []), (''gamemode'', PBool True)]) game_info)
     = Inr ([PStr ''gamemoderun'', PStr ''/games/doom/doom'', PStr ''-fullscreen''],
            [(''DISABLE_LAYER_AMD_SWITCHABLE_GRAPHICS_1'', PStr ''1'')])
   \<and> (\<exists>rest. [PStr ''gamemoderun'', PStr ''/games/doom/doom'', PStr ''-fullscreen'']
          = PStr ''gamemoderun'' # rest)
   \<and> snd (get_launch_parameters tools_host
          (runner_with [(''locale'', PStr []), (''gamemode'', PBool True),
                        (''gamescope'', PBool True)]) game_info)
     = Inr ([PStr ''gamescope'', PStr ''--'', PStr ''gamemoderun'', PStr ''/games/doom/doom'',
             PStr ''-fullscreen''],
            [(''DISABLE_LAYER_AMD_SWITCHABLE_GRAPHICS_1'', PStr ''1'')])
   \<and> (\<exists>pre rest. [PStr ''gamescope'', PStr ''--'', PStr ''gamemoderun'', PStr ''/games/doom/doom'',
                    PStr ''-fullscreen'']
          = PStr ''gamescope'' # pre @ PStr ''--'' # PStr ''gamemoderun'' # rest)"
proof -
  let ?r1 = "runner_with [(''locale'', PStr []), (''gamemode'', PBool True)]"
  let ?r2 = "runner_with [(''locale'', PStr []), (''gamemode'', PBool True), (''gamescope'', PBool True)]"
  have e1: "snd (get_launch_parameters tools_host ?r1 game_info)
      = Inr ([PStr ''gamemoderun'', PStr ''/games/doom/doom'', PStr ''-fullscreen''],
             [(''DISABLE_LAYER_AMD_SWITCHABLE_GRAPHICS_1'', PStr ''1'')])"
    by code_simp
  have e2: "snd (get_launch_parameters tools_host ?r2 game_info)
      = Inr ([PStr ''gamescope'', PStr ''--'', PStr ''gamemoderun'', PStr ''/games/doom/doom'',
              PStr ''-fullscreen''],
             [(''DISABLE_LAYER_AMD_SWITCHABLE_GRAPHICS_1'', PStr ''1'')])"
    by code_simp
  have g1: "truthy (dict_get (runner_system_config ?r1) ''gamemode'')"
    and n1: "\<not> truthy (dict_get (runner_system_config ?r1) ''gamescope'')"
    and g2: "truthy (dict_get (runner_system_config ?r2) ''gamemode'')"
    and s2: "truthy (dict_get (runner_system_config ?r2) ''gamescope'')
             \<and> can_find_executable tools_host ''gamescope''"
    and av: "gamemode_available tools_host"
    by (simp_all add: runner_with_def dict_get_def can_find_executable_def tools_host_def)
  show ?thesis
    using gamemode_wrapper_position [OF e1 g1 av] n1
      gamemode_wrapper_position [OF e2 g2 av] s2 e1 e2
    by blast
qed

subsection \<open>CPU affinity\<close>

lemma single_cpu_stage_4:
  assumes "truthy (dict_get cfg ''single_cpu'')" and "dict_get cfg ''limit_cpu_count'' = PStr ''4''"
  shows "snd (single_cpu_stage cfg la) = Inr (PStr ''taskset'' # PStr ''-c'' # PStr ''0-3'' # la)"
proof -
  have "isnumeric ''4''" "list_all is_digit ''4''" "nat_of_digits ''4'' = 4"
    by (simp_all add: isnumeric_def is_numeric_char_def is_digit_def nat_of_digits_def)
  moreover have "str_of_nat 3 = ''3''" by code_simp
  ultimately show ?thesis
    using assms by (simp add: single_cpu_stage_def parse_limit_cpu_count_def snd_bind_of_Inr)
qed

lemma single_cpu_stage_bogus:
  assumes "truthy (dict_get cfg ''single_cpu'')" and "dict_get cfg ''limit_cpu_count'' = PStr ''bogus''"
  shows "snd (single_cpu_stage cfg la) = Inr (PStr ''taskset'' # PStr ''-c'' # PStr ''0-0'' # la)"
proof -
  have "\<not> isnumeric ''bogus''"
    by (simp add: isnumeric_def is_numeric_char_def)
  moreover have "str_of_nat 0 = ''0''" by code_simp
  ultimately show ?thesis
    using assms by (simp add: single_cpu_stage_def parse_limit_cpu_count_def snd_bind_of_Inr)
qed

text \<open>
  C4.  Whenever \<open>get_launch_parameters\<close> returns for a configuration with single_cpu
  set and neither the gamemode nor the gamescope stage applied, the vector starts with
  \<open>taskset -c 0-3\<close> when limit_cpu_count is \<open>4\<close>, and with \<open>taskset -c 0-0\<close> when
  limit_cpu_count is \<open>bogus\<close>.
\<close>

theorem single_cpu_taskset_prefix:
  assumes "snd (get_launch_parameters h r gi) = Inr (args, env)"
    and "truthy (dict_get (runner_system_config r) ''single_cpu'')"
    and "\<not> (truthy (dict_get (runner_system_config r) ''gamemode'') \<and> gamemode_available h)"
    and "\<not> (truthy (dict_get (runner_system_config r) ''gamescope'')
             \<and> can_find_executable h ''gamescope'')"
  shows "(dict_get (runner_system_config r) ''limit_cpu_count'' = PStr ''4'' \<longrightarrow>
            (\<exists>rest. args = PStr ''taskset'' # PStr ''-c'' # PStr ''0-3'' # rest))
       \<and> (dict_get (runner_system_config r) ''limit_cpu_count'' = PStr ''bogus'' \<longrightarrow>
            (\<exists>rest. args = PStr ''taskset'' # PStr ''-c'' # PStr ''0-0'' # rest))"
proof -
  from get_launch_parameters_InrD [OF assms(1)] obtain a6 a7 where
    sc: "snd (single_cpu_stage (runner_system_config r) a6) = Inr a7"
    and gs: "snd (gamescope_stage h (runner_system_config r)
               (gamemode_stage h (runner_system_config r) a7)) = Inr args"
    by blast
  from gs assms(3,4) have "args = a7"
    by (auto simp add: gamescope_stage_def gamemode_stage_def)
  with sc show ?thesis
    using single_cpu_stage_4 [OF assms(2), of a6] single_cpu_stage_bogus [OF assms(2), of a6]
    by auto
qed

theorem single_cpu_taskset_prefix_witness:
  "snd (get_launch_parameters bare_host
          (runner_with [(''locale'', PStr []), (''single_cpu'', PBool True),
                        (''limit_cpu_count'', PStr ''4'')]) game_info)
     = Inr ([PStr ''taskset'', PStr ''-c'', PStr ''0-3'', PStr ''/games/doom/doom'',
             PStr ''-fullscreen''],
            [(''DISABLE_LAYER_AMD_SWITCHABLE_GRAPHICS_1'', PStr ''1'')])
   \<and> (\<exists>rest. [PStr ''taskset'', PStr ''-c'', PStr ''0-3'', PStr ''/games/doom/doom'',
               PStr ''-fullscreen'']
          = PStr ''taskset'' # PStr ''-c'' # PStr ''0-3'' # rest)
   \<and> snd (get_launch_parameters bare_host
          (runner_with [(''locale'', PStr []), (''single_cpu'', PBool True),
                        (''limit_cpu_count'', PStr ''bogus'')]) game_info)
     = Inr ([PStr ''taskset'', PStr ''-c'', PStr ''0-0'', PStr ''/games/doom/doom'',
             PStr ''-fullscreen''],
            [(''DISABLE_LAYER_AMD_SWITCHABLE_GRAPHICS_1'', PStr ''1'')])
   \<and> (\<exists>rest. [PStr ''taskset'', PStr ''-c'', PStr ''0-0'', PStr ''/games/doom/doom'',
               PStr ''-fullscreen'']
          = PStr ''taskset'' # PStr ''-c'' # PStr ''0-0'' # rest)"
proof -
  let ?r1 = "runner_with [(''locale'', PStr []), (''single_cpu'', PBool True),
                      (''limit_cpu_count'', PStr ''4'')]"
  let ?r2 = "runner_with [(''locale'', PStr []), (''single_cpu'', PBool True),
                      (''limit_cpu_count'', PStr ''bogus'')]"
  have e1: "snd (get_launch_parameters bare_host ?r1 game_info)
      = Inr ([PStr ''taskset'', PStr ''-c'', PStr ''0-3'', PStr ''/games/doom/doom'',
              PStr ''-fullscreen''],
             [(''DISABLE_LAYER_AMD_SWITCHABLE_GRAPHICS_1'', PStr ''1'')])"
    by code_simp
  have e2: "snd (get_launch_parameters bare_host ?r2 game_info)
      = Inr ([PStr ''taskset'', PStr ''-c'', PStr ''0-0'', PStr ''/games/doom/doom'',
              PStr ''-fullscreen''],
             [(''DISABLE_LAYER_AMD_SWITCHABLE_GRAPHICS_1'', PStr ''1'')])"
    by code_simp
  have c1: "truthy (dict_get (runner_system_config ?r1) ''single_cpu'')"
    "\<not> (truthy (dict_get (runner_system_config ?r1) ''gamemode'') \<and> gamemode_available bare_host)"
    "\<not> (truthy (dict_get (runner_system_config ?r1) ''gamescope'')
             \<and> can_find_executable bare_host ''gamescope'')"
    and l1: "dict_get (runner_system_config ?r1) ''limit_cpu_count'' = PStr ''4''"
    by (simp_all add: runner_with_def dict_get_def)
  have c2: "truthy (dict_get (runner_system_config ?r2) ''single_cpu'')"
    "\<not> (truthy (dict_get (runner_system_config ?r2) ''gamemode'') \<and> gamemode_available bare_host)"
    "\<not> (truthy (dict_get (runner_system_config ?r2) ''gamescope'')
             \<and> can_find_executable bare_host ''gamescope'')"
    and l2: "dict_get (runner_system_config ?r2) ''limit_cpu_count'' = PStr ''bogus''"
    by (simp_all add: runner_with_def dict_get_def)
  show ?thesis
    using single_cpu_taskset_prefix [OF e1 c1] l1 single_cpu_taskset_prefix [OF e2 c2] l2 e1 e2
    by blast
qed

subsection \<open>The locale\<close>

text \<open>
  C9.  For every configuration without the key locale, \<open>get_launch_parameters\<close> raises
  \<open>KeyError\<close> for that key; a configuration that holds the key locale and no other
  key never makes it raise a \<open>KeyError\<close>, so that no other key is required.
\<close>

theorem locale_read_by_index:
  "(map_of (runner_system_config r) ''locale'' = None \<longrightarrow>
      snd (get_launch_parameters h r gi) = Inl (KeyError ''locale''))
   \<and> ((\<exists>v. runner_system_config r = [(''locale'', v)]) \<longrightarrow>
      (\<forall>k. snd (get_launch_parameters h r gi) \<noteq> Inl (KeyError k)))"
proof (intro conjI impI)
  assume miss: "map_of (runner_system_config r) ''locale'' = None"
  obtain env1 where
    "snd (steam_compatibility h [(''DISABLE_LAYER_AMD_SWITCHABLE_GRAPHICS_1'', PStr ''1'')]) = Inr env1"
    using steam_compatibility_returns by blast
  moreover have "snd (set_locale (runner_system_config r) env1) = Inl (KeyError ''locale'')"
    using miss by (simp add: set_locale_def)
  ultimately show "snd (get_launch_parameters h r gi) = Inl (KeyError ''locale'')"
    by (simp add: get_launch_parameters_def Let_def snd_bind_of_Inr snd_bind_of_Inl)
next
  assume "\<exists>v. runner_system_config r = [(''locale'', v)]"
  then obtain v where cfg: "runner_system_config r = [(''locale'', v)]" by blast
  show "\<forall>k. snd (get_launch_parameters h r gi) \<noteq> Inl (KeyError k)"
  proof (intro allI notI)
    fix k
    assume ke: "snd (get_launch_parameters h r gi) = Inl (KeyError k)"
    obtain env1 where
      s1: "snd (steam_compatibility h [(''DISABLE_LAYER_AMD_SWITCHABLE_GRAPHICS_1'', PStr ''1'')])
             = Inr env1"
      using steam_compatibility_returns by blast
    obtain env2 where s2: "snd (set_locale (runner_system_config r) env1) = Inr env2"
      using cfg by (cases "v = PStr []") (auto simp add: set_locale_def)
    have jp: "\<And>vs e. snd (join_paths vs) = Inl e \<Longrightarrow> \<exists>m. e = TypeError m"
    proof -
      fix vs e show "snd (join_paths vs) = Inl e \<Longrightarrow> \<exists>m. e = TypeError m"
        by (induction vs rule: join_paths.induct) (auto dest!: snd_bind_Inl)
    qed
    have ld: "\<And>env e. snd (ld_stage gi env) = Inl e \<Longrightarrow> \<exists>m. e = TypeError m"
      unfolding ld_stage_def Let_def
      by (auto split: if_splits dest!: snd_bind_Inl jp)
    from ke s1 s2 cfg show False
      by (auto simp add: get_launch_parameters_def Let_def snd_bind_of_Inr
          optimus_stage_def mangohud_stage_def get_mangohud_conf_def libstrangle_stage_def
          prefix_command_stage_def single_cpu_stage_def gamemode_stage_def gamescope_stage_def
          dict_get_def split: if_splits dest!: snd_bind_Inl ld)
  qed
qed

theorem locale_read_by_index_witness:
  "map_of (runner_system_config (runner_with [(''gamemode'', PBool True)])) ''locale'' = None
   \<and> snd (get_launch_parameters tools_host (runner_with [(''gamemode'', PBool True)]) game_info)
       = Inl (KeyError ''locale'')
   \<and> runner_system_config (runner_with [(''locale'', PStr ''C'')]) = [(''locale'', PStr ''C'')]
   \<and> (\<forall>k. snd (get_launch_parameters tools_host (runner_with [(''locale'', PStr ''C'')]) game_info)
          \<noteq> Inl (KeyError k))"
proof -
  have m: "map_of (runner_system_config (runner_with [(''gamemode'', PBool True)])) ''locale'' = None"
    and p: "runner_system_config (runner_with [(''locale'', PStr ''C'')]) = [(''locale'', PStr ''C'')]"
    by (simp_all add: runner_with_def)
  show ?thesis
    using locale_read_by_index [of "runner_with [(''gamemode'', PBool True)]" tools_host game_info]
      locale_read_by_index [of "runner_with [(''locale'', PStr ''C'')]" tools_host game_info] m p
    by blast
qed

subsection \<open>The output resolution of gamescope\<close>

lemma dict_get_update:
  "dict_get (AList.update k v d) k' = (if k' = k then v else dict_get d k')"
  by (simp add: dict_get_def update_conv')

lemma py_lower_canonical: "py_lower ''1920x1080'' = ''1920x1080''"
  by code_simp

lemma split_resolution_1920x1080:
  "py_lower s = ''1920x1080'' \<Longrightarrow> split_resolution (PStr s) = ret (''1920'', ''1080'')"
  by (simp add: split_resolution_def)

lemma get_gamescope_args_output_res:
  assumes "snd (get_gamescope_args h la cfg) = Inr args"
    and "dict_get cfg ''gamescope_output_res'' = PStr s" and "py_lower s = ''1920x1080''"
  shows "\<exists>pre post. args = pre @ PStr ''-W'' # PStr ''1920'' # PStr ''-H'' # PStr ''1080'' # post"
proof -
  have ne: "s \<noteq> []" using assms(3) by (auto simp: py_lower_def)
  from get_gamescope_args_InrD [OF assms(1)] obtain la3 la4 where
    s3: "\<exists>la2. snd (if truthy (dict_get cfg ''gamescope_output_res'')
            then bind (split_resolution (dict_get cfg ''gamescope_output_res''))
                   (\<lambda>(output_width, output_height).
                 ret (PStr ''-W'' # PStr output_width # PStr ''-H'' # PStr output_height
                      # (if truthy (dict_get cfg ''gamescope_fps_limiter'')
                         then PStr ''-r'' # dict_get cfg ''gamescope_fps_limiter''
                              # (if truthy (dict_get cfg ''gamescope_window_mode'')
                                 then dict_get cfg ''gamescope_window_mode'' # la2 else la2)
                         else (if truthy (dict_get cfg ''gamescope_window_mode'')
                                 then dict_get cfg ''gamescope_window_mode'' # la2 else la2))))
            else ret (if truthy (dict_get cfg ''gamescope_fps_limiter'')
                         then PStr ''-r'' # dict_get cfg ''gamescope_fps_limiter''
                              # (if truthy (dict_get cfg ''gamescope_window_mode'')
                                 then dict_get cfg ''gamescope_window_mode'' # la2 else la2)
                         else (if truthy (dict_get cfg ''gamescope_window_mode'')
                                 then dict_get cfg ''gamescope_window_mode'' # la2 else la2))) = Inr la3"
    and s4: "snd (if truthy (dict_get cfg ''gamescope_game_res'')
            then bind (split_resolution (dict_get cfg ''gamescope_game_res''))
                   (\<lambda>(game_width, game_height).
                 ret (PStr ''-w'' # PStr game_width # PStr ''-h'' # PStr game_height # la3))
            else ret la3) = Inr la4"
    and a: "args = PStr ''gamescope'' # la4"
    by blast
  from s3 obtain post where p3: "la3 = PStr ''-W'' # PStr ''1920'' # PStr ''-H'' # PStr ''1080'' # post"
    using assms(2) ne split_resolution_1920x1080 [OF assms(3)]
    by (auto simp add: snd_bind_of_Inr)
  from s4 obtain p4 where p4: "la4 = p4 @ la3"
    by (cases "truthy (dict_get cfg ''gamescope_game_res'')") (auto dest!: snd_bind_Inr)
  have "args = (PStr ''gamescope'' # p4) @ PStr ''-W'' # PStr ''1920'' # PStr ''-H'' # PStr ''1080'' # post"
    using a p3 p4 by simp
  then show ?thesis by blast
qed

lemma get_gamescope_args_canonical:
  assumes "dict_get cfg ''gamescope_output_res'' = PStr s" and "py_lower s = ''1920x1080''"
  shows "get_gamescope_args h la (AList.update ''gamescope_output_res'' (PStr ''1920x1080'') cfg)
           = get_gamescope_args h la cfg"
proof -
  have ne: "s \<noteq> []" using assms(2) by (auto simp: py_lower_def)
  show ?thesis
    using assms ne
    by (simp add: get_gamescope_args_def dict_get_update split_resolution_def py_lower_canonical
        Let_def cong: if_cong)
qed

text \<open>
  C7.  Let gamescope_output_res be a string whose lower-case form is \<open>1920x1080\<close>.
  With gamescope enabled and found, every vector that \<open>get_launch_parameters\<close> returns
  contains the consecutive tokens \<open>-W 1920 -H 1080\<close>; and the call gives the same
  result, log included, as with gamescope_output_res set to \<open>1920x1080\<close> itself.
\<close>

theorem gamescope_output_res_case_insensitive:
  assumes "dict_get (runner_system_config r) ''gamescope_output_res'' = PStr s"
    and "py_lower s = ''1920x1080''"
  shows "(truthy (dict_get (runner_system_config r) ''gamescope'')
            \<and> can_find_executable h ''gamescope'' \<longrightarrow>
          (\<forall>args env. snd (get_launch_parameters h r gi) = Inr (args, env) \<longrightarrow>
             (\<exists>pre post. args = pre @ PStr ''-W'' # PStr ''1920'' # PStr ''-H'' # PStr ''1080'' # post)))
       \<and> get_launch_parameters h
            (r\<lparr>runner_system_config :=
                 AList.update ''gamescope_output_res'' (PStr ''1920x1080'') (runner_system_config r)\<rparr>) gi
         = get_launch_parameters h r gi"
proof (intro conjI impI allI)
  fix args env
  assume on: "truthy (dict_get (runner_system_config r) ''gamescope'')
              \<and> can_find_executable h ''gamescope''"
    and ret: "snd (get_launch_parameters h r gi) = Inr (args, env)"
  from get_launch_parameters_InrD [OF ret] obtain a7 where
    "snd (gamescope_stage h (runner_system_config r)
               (gamemode_stage h (runner_system_config r) a7)) = Inr args"
    by blast
  with on have "snd (get_gamescope_args h (gamemode_stage h (runner_system_config r) a7)
                       (runner_system_config r)) = Inr args"
    by (simp add: gamescope_stage_def)
  from get_gamescope_args_output_res [OF this assms]
  show "\<exists>pre post. args = pre @ PStr ''-W'' # PStr ''1920'' # PStr ''-H'' # PStr ''1080'' # post" .
next
  let ?cfg = "runner_system_config r"
  let ?cfg' = "AList.update ''gamescope_output_res'' (PStr ''1920x1080'') ?cfg"
  have "set_locale ?cfg' = set_locale ?cfg"
    by (simp add: set_locale_def update_conv' fun_eq_iff)
  moreover have "optimus_stage h ?cfg' = optimus_stage h ?cfg"
    by (simp add: optimus_stage_def dict_get_update fun_eq_iff Let_def cong: if_cong)
  moreover have "mangohud_stage h ?cfg' = mangohud_stage h ?cfg"
    by (simp add: mangohud_stage_def get_mangohud_conf_def dict_get_update fun_eq_iff Let_def cong: if_cong)
  moreover have "libstrangle_stage h ?cfg' = libstrangle_stage h ?cfg"
    by (simp add: libstrangle_stage_def dict_get_update fun_eq_iff Let_def cong: if_cong)
  moreover have "prefix_command_stage h ?cfg' = prefix_command_stage h ?cfg"
    by (simp add: prefix_command_stage_def dict_get_update fun_eq_iff Let_def cong: if_cong)
  moreover have "single_cpu_stage ?cfg' = single_cpu_stage ?cfg"
    by (simp add: single_cpu_stage_def dict_get_update fun_eq_iff Let_def cong: if_cong)
  moreover have "gamemode_stage h ?cfg' = gamemode_stage h ?cfg"
    by (simp add: gamemode_stage_def dict_get_update fun_eq_iff Let_def cong: if_cong)
  moreover have "gamescope_stage h ?cfg' = gamescope_stage h ?cfg"
    by (auto simp add: gamescope_stage_def dict_get_update fun_eq_iff
        get_gamescope_args_canonical [OF assms])
  moreover have "merge_env (r\<lparr>runner_system_config := ?cfg'\<rparr>) = merge_env r"
    by (simp add: merge_env_def fun_eq_iff)
  ultimately show "get_launch_parameters h (r\<lparr>runner_system_config := ?cfg'\<rparr>) gi
         = get_launch_parameters h r gi"
    unfolding get_launch_parameters_def Let_def split_beta by simp
qed

theorem gamescope_output_res_case_insensitive_witness:
  "py_lower ''1920X1080'' = ''1920x1080''
   \<and> snd (get_launch_parameters tools_host
          (runner_with [(''locale'', PStr []), (''gamescope'', PBool True),
                        (''gamescope_output_res'', PStr ''1920X1080'')]) game_info)
     = Inr ([PStr ''gamescope'', PStr ''-W'', PStr ''1920'', PStr ''-H'', PStr ''1080'', PStr ''--'',
             PStr ''/games/doom/doom'', PStr ''-fullscreen''],
            [(''DISABLE_LAYER_AMD_SWITCHABLE_GRAPHICS_1'', PStr ''1'')])
   \<and> (\<exists>pre post. [PStr ''gamescope'', PStr ''-W'', PStr ''1920'', PStr ''-H'', PStr ''1080'',
                    PStr ''--'', PStr ''/games/doom/doom'', PStr ''-fullscreen'']
          = pre @ PStr ''-W'' # PStr ''1920'' # PStr ''-H'' # PStr ''1080'' # post)
   \<and> get_launch_parameters tools_host
          (runner_with [(''locale'', PStr []), (''gamescope'', PBool True),
                        (''gamescope_output_res'', PStr ''1920x1080'')]) game_info
     = get_launch_parameters tools_host
          (runner_with [(''locale'', PStr []), (''gamescope'', PBool True),
                        (''gamescope_output_res'', PStr ''1920X1080'')]) game_info"
proof -
  let ?r = "runner_with [(''locale'', PStr []), (''gamescope'', PBool True),
                        (''gamescope_output_res'', PStr ''1920X1080'')]"
  have lw: "py_lower ''1920X1080'' = ''1920x1080''"
    by code_simp
  have res: "dict_get (runner_system_config ?r) ''gamescope_output_res'' = PStr ''1920X1080''"
    and on: "truthy (dict_get (runner_system_config ?r) ''gamescope'')
             \<and> can_find_executable tools_host ''gamescope''"
    by (simp_all add: runner_with_def dict_get_def can_find_executable_def tools_host_def)
  have e: "snd (get_launch_parameters tools_host ?r game_info)
      = Inr ([PStr ''gamescope'', PStr ''-W'', PStr ''1920'', PStr ''-H'', PStr ''1080'', PStr ''--'',
              PStr ''/games/doom/doom'', PStr ''-fullscreen''],
             [(''DISABLE_LAYER_AMD_SWITCHABLE_GRAPHICS_1'', PStr ''1'')])"
    by code_simp
  have u: "?r\<lparr>runner_system_config :=
               AList.update ''gamescope_output_res'' (PStr ''1920x1080'') (runner_system_config ?r)\<rparr>
           = runner_with [(''locale'', PStr []), (''gamescope'', PBool True),
                          (''gamescope_output_res'', PStr ''1920x1080'')]"
    by (simp add: runner_with_def)
  show ?thesis
    using gamescope_output_res_case_insensitive [OF res lw, of tools_host game_info] on e lw
    unfolding u by blast
qed

subsection \<open>The FPS limiter\<close>

lemma fst_bind_of_Inr: "snd m = Inr x \<Longrightarrow> fst (bind m f) = fst m @ fst (f x)"
  by (cases m; cases "f x") (auto simp: bind_def)

lemma libstrangle_stage_found:
  assumes "truthy (dict_get cfg ''fps_limit'')"
    and "shutil_which h ''strangle'' = Some p" and "p \<noteq> []"
  shows "libstrangle_stage h cfg la = ([], Inr (PStr p # dict_get cfg ''fps_limit'' # la))"
  using assms by (simp add: libstrangle_stage_def find_executable_def result_defs)

lemma libstrangle_stage_missing:
  assumes "truthy (dict_get cfg ''fps_limit'')" and "\<not> can_find_executable h ''strangle''"
  shows "libstrangle_stage h cfg la
           = ([(WARNING, ''libstrangle is not available on this system, FPS limiter disabled'')],
              Inr la)"
  using assms
  by (auto simp add: libstrangle_stage_def find_executable_def can_find_executable_def
      result_defs split: option.splits)

lemma libstrangle_stage_off:
  "\<not> truthy (dict_get cfg ''fps_limit'') \<Longrightarrow> libstrangle_stage h cfg la = ret la"
  by (simp add: libstrangle_stage_def)

lemma prefix_command_stage_prepends:
  "snd (prefix_command_stage h cfg la) = Inr a \<Longrightarrow> \<exists>pre. a = pre @ la"
  by (auto simp add: prefix_command_stage_def Let_def split: if_splits pyval.splits option.splits)

lemma single_cpu_stage_prepends:
  "snd (single_cpu_stage cfg la) = Inr a \<Longrightarrow> \<exists>pre. a = pre @ la"
  by (auto simp add: single_cpu_stage_def Let_def split: if_splits dest!: snd_bind_Inr)

lemma gamemode_stage_prepends: "\<exists>pre. gamemode_stage h cfg la = pre @ la"
  by (simp add: gamemode_stage_def)

lemma gamescope_stage_prepends:
  assumes "snd (gamescope_stage h cfg la) = Inr a"
  shows "\<exists>pre. a = pre @ la"
proof (cases "truthy (dict_get cfg ''gamescope'') \<and> can_find_executable h ''gamescope''")
  case True
  with assms have "snd (get_gamescope_args h la cfg) = Inr a"
    by (simp add: gamescope_stage_def)
  from get_gamescope_args_shape [OF this] obtain pre where
    "a = PStr ''gamescope'' # pre @ PStr ''--'' # la" by blast
  then have "a = (PStr ''gamescope'' # pre @ [PStr ''--'']) @ la" by simp
  then show ?thesis by blast
next
  case False
  with assms show ?thesis by (auto simp add: gamescope_stage_def)
qed

text \<open>
  C8.  Let fps_limit be truthy.  When \<open>strangle\<close> is found at the path \<open>p\<close>, the
  stage prepends \<open>p\<close> and the limit, and every vector that \<open>get_launch_parameters\<close>
  returns contains these two tokens next to each other.  When \<open>strangle\<close> cannot be
  found, the stage logs a warning and leaves the vector as it is: the call raises or
  returns exactly what it does with fps_limit unset, and the warning is in its log
  whenever the key locale is present.
\<close>

theorem fps_limiter_fail_open:
  assumes "truthy (dict_get (runner_system_config r) ''fps_limit'')"
  shows "(\<forall>p. shutil_which h ''strangle'' = Some p \<and> p \<noteq> [] \<longrightarrow>
            libstrangle_stage h (runner_system_config r) la
              = ([], Inr (PStr p # dict_get (runner_system_config r) ''fps_limit'' # la))
            \<and> (\<forall>args env. snd (get_launch_parameters h r gi) = Inr (args, env) \<longrightarrow>
                 (\<exists>pre post. args
                    = pre @ PStr p # dict_get (runner_system_config r) ''fps_limit'' # post)))
       \<and> (\<not> can_find_executable h ''strangle'' \<longrightarrow>
            libstrangle_stage h (runner_system_config r) la
              = ([(WARNING, ''libstrangle is not available on this system, FPS limiter disabled'')],
                 Inr la)
            \<and> snd (get_launch_parameters h r gi)
                = snd (get_launch_parameters h
                         (r\<lparr>runner_system_config :=
                              AList.update ''fps_limit'' PNone (runner_system_config r)\<rparr>) gi)
            \<and> (map_of (runner_system_config r) ''locale'' \<noteq> None \<longrightarrow>
                 (WARNING, ''libstrangle is not available on this system, FPS limiter disabled'')
                   \<in> set (fst (get_launch_parameters h r gi))))"
proof (intro conjI impI allI)
  fix p
  assume "shutil_which h ''strangle'' = Some p \<and> p \<noteq> []"
  then show "libstrangle_stage h (runner_system_config r) la
              = ([], Inr (PStr p # dict_get (runner_system_config r) ''fps_limit'' # la))"
    using libstrangle_stage_found [OF assms] by blast
next
  fix p args env
  assume found: "shutil_which h ''strangle'' = Some p \<and> p \<noteq> []"
    and ret: "snd (get_launch_parameters h r gi) = Inr (args, env)"
  let ?cfg = "runner_system_config r"
  from get_launch_parameters_InrD [OF ret] obtain la0 a5 a6 a7 where
    s5: "snd (libstrangle_stage h ?cfg la0) = Inr a5"
    and s6: "snd (prefix_command_stage h ?cfg a5) = Inr a6"
    and s7: "snd (single_cpu_stage ?cfg a6) = Inr a7"
    and s11: "snd (gamescope_stage h ?cfg (gamemode_stage h ?cfg a7)) = Inr args"
    by blast
  from s5 found have a5: "a5 = PStr p # dict_get ?cfg ''fps_limit'' # la0"
    using libstrangle_stage_found [OF assms, of h p la0] by simp
  from prefix_command_stage_prepends [OF s6] obtain p6 where a6: "a6 = p6 @ a5" by blast
  from single_cpu_stage_prepends [OF s7] obtain p7 where a7: "a7 = p7 @ a6" by blast
  obtain p10 where a10: "gamemode_stage h ?cfg a7 = p10 @ a7"
    using gamemode_stage_prepends by blast
  from gamescope_stage_prepends [OF s11] obtain p11 where
    a11: "args = p11 @ gamemode_stage h ?cfg a7" by blast
  have "args = (p11 @ p10 @ p7 @ p6) @ PStr p # dict_get ?cfg ''fps_limit'' # la0"
    using a5 a6 a7 a10 a11 by simp
  then show "\<exists>pre post. args = pre @ PStr p # dict_get ?cfg ''fps_limit'' # post"
    by blast
next
  assume "\<not> can_find_executable h ''strangle''"
  then show "libstrangle_stage h (runner_system_config r) la
              = ([(WARNING, ''libstrangle is not available on this system, FPS limiter disabled'')],
                 Inr la)"
    using libstrangle_stage_missing [OF assms] by blast
next
  assume missing: "\<not> can_find_executable h ''strangle''"
  let ?cfg = "runner_system_config r"
  let ?cfg' = "AList.update ''fps_limit'' PNone ?cfg"
  have "set_locale ?cfg' = set_locale ?cfg"
    by (simp add: set_locale_def update_conv' fun_eq_iff)
  moreover have "optimus_stage h ?cfg' = optimus_stage h ?cfg"
    by (simp add: optimus_stage_def dict_get_update fun_eq_iff Let_def cong: if_cong)
  moreover have "mangohud_stage h ?cfg' = mangohud_stage h ?cfg"
    by (simp add: mangohud_stage_def get_mangohud_conf_def dict_get_update fun_eq_iff
        Let_def cong: if_cong)
  moreover have "prefix_command_stage h ?cfg' = prefix_command_stage h ?cfg"
    by (simp add: prefix_command_stage_def dict_get_update fun_eq_iff Let_def cong: if_cong)
  moreover have "single_cpu_stage ?cfg' = single_cpu_stage ?cfg"
    by (simp add: single_cpu_stage_def dict_get_update fun_eq_iff Let_def cong: if_cong)
  moreover have "gamemode_stage h ?cfg' = gamemode_stage h ?cfg"
    by (simp add: gamemode_stage_def dict_get_update fun_eq_iff Let_def cong: if_cong)
  moreover have "get_gamescope_args h la' ?cfg' = get_gamescope_args h la' ?cfg" for la'
    by (simp add: get_gamescope_args_def dict_get_update Let_def cong: if_cong)
  then have "gamescope_stage h ?cfg' = gamescope_stage h ?cfg"
    by (auto simp add: gamescope_stage_def dict_get_update fun_eq_iff)
  moreover have "merge_env (r\<lparr>runner_system_config := ?cfg'\<rparr>) = merge_env r"
    by (simp add: merge_env_def fun_eq_iff)
  moreover have "snd (libstrangle_stage h ?cfg' la') = snd (libstrangle_stage h ?cfg la')" for la'
    using libstrangle_stage_missing [OF assms missing, of la']
    by (simp add: libstrangle_stage_off dict_get_update)
  ultimately show "snd (get_launch_parameters h r gi)
                = snd (get_launch_parameters h (r\<lparr>runner_system_config := ?cfg'\<rparr>) gi)"
    unfolding get_launch_parameters_def Let_def split_beta
    by (simp, intro snd_bind_cong refl) simp
next
  assume missing: "\<not> can_find_executable h ''strangle''"
    and loc: "map_of (runner_system_config r) ''locale'' \<noteq> None"
  let ?cfg = "runner_system_config r"
  let ?w = "(WARNING, ''libstrangle is not available on this system, FPS limiter disabled'')"
  obtain env1 where
    s1: "snd (steam_compatibility h [(''DISABLE_LAYER_AMD_SWITCHABLE_GRAPHICS_1'', PStr ''1'')])
           = Inr env1"
    using steam_compatibility_returns by blast
  from loc obtain env2 where s2: "snd (set_locale ?cfg env1) = Inr env2"
    by (cases "the (map_of ?cfg ''locale'') = PStr []") (auto simp add: set_locale_def)
  have s5: "snd (libstrangle_stage h ?cfg la') = Inr la'" 
    and l5: "fst (libstrangle_stage h ?cfg la') = [?w]" for la'
    using libstrangle_stage_missing [OF assms missing, of la'] by simp_all
  show "?w \<in> set (fst (get_launch_parameters h r gi))"
    unfolding get_launch_parameters_def Let_def split_beta
    by (simp add: fst_bind_of_Inr [OF s1] fst_bind_of_Inr [OF s2] fst_bind_of_Inr [OF s5] l5)
qed

theorem fps_limiter_fail_open_witness:
  "truthy (dict_get (runner_system_config
             (runner_with [(''locale'', PStr []), (''fps_limit'', PStr ''60'')])) ''fps_limit'')
   \<and> shutil_which tools_host ''strangle'' = Some ''/usr/bin/strangle''
   \<and> snd (get_launch_parameters tools_host
          (runner_with [(''locale'', PStr []), (''fps_limit'', PStr ''60'')]) game_info)
     = Inr ([PStr ''/usr/bin/strangle'', PStr ''60'', PStr ''/games/doom/doom'', PStr ''-fullscreen''],
            [(''DISABLE_LAYER_AMD_SWITCHABLE_GRAPHICS_1'', PStr ''1'')])
   \<and> (\<exists>pre post. [PStr ''/usr/bin/strangle'', PStr ''60'', PStr ''/games/doom/doom'',
                    PStr ''-fullscreen'']
          = pre @ PStr ''/usr/bin/strangle'' # PStr ''60'' # post)
   \<and> \<not> can_find_executable bare_host ''strangle''
   \<and> snd (get_launch_parameters bare_host
          (runner_with [(''locale'', PStr []), (''fps_limit'', PStr ''60'')]) game_info)
     = snd (get_launch_parameters bare_host
          (runner_with [(''locale'', PStr []), (''fps_limit'', PNone)]) game_info)
   \<and> (WARNING, ''libstrangle is not available on this system, FPS limiter disabled'')
       \<in> set (fst (get_launch_parameters bare_host
          (runner_with [(''locale'', PStr []), (''fps_limit'', PStr ''60'')]) game_info))"
proof -
  let ?r = "runner_with [(''locale'', PStr []), (''fps_limit'', PStr ''60'')]"
  have t: "truthy (dict_get (runner_system_config ?r) ''fps_limit'')"
    and fps: "dict_get (runner_system_config ?r) ''fps_limit'' = PStr ''60''"
    and w: "shutil_which tools_host ''strangle'' = Some ''/usr/bin/strangle''"
    and nf: "\<not> can_find_executable bare_host ''strangle''"
    and loc: "map_of (runner_system_config ?r) ''locale'' \<noteq> None"
    by (simp_all add: runner_with_def dict_get_def can_find_executable_def tools_host_def
        bare_host_def)
  have e: "snd (get_launch_parameters tools_host ?r game_info)
      = Inr ([PStr ''/usr/bin/strangle'', PStr ''60'', PStr ''/games/doom/doom'', PStr ''-fullscreen''],
             [(''DISABLE_LAYER_AMD_SWITCHABLE_GRAPHICS_1'', PStr ''1'')])"
    by code_simp
  have u: "?r\<lparr>runner_system_config := AList.update ''fps_limit'' PNone (runner_system_config ?r)\<rparr>
           = runner_with [(''locale'', PStr []), (''fps_limit'', PNone)]"
    by (simp add: runner_with_def)
  have found: "\<exists>pre post. [PStr ''/usr/bin/strangle'', PStr ''60'', PStr ''/games/doom/doom'',
                    PStr ''-fullscreen'']
          = pre @ PStr ''/usr/bin/strangle'' # PStr ''60'' # post"
    using fps_limiter_fail_open [OF t, of tools_host "[]" game_info] w e fps by auto
  have missing: "snd (get_launch_parameters bare_host ?r game_info)
       = snd (get_launch_parameters bare_host
                (runner_with [(''locale'', PStr []), (''fps_limit'', PNone)]) game_info)
     \<and> (WARNING, ''libstrangle is not available on this system, FPS limiter disabled'')
         \<in> set (fst (get_launch_parameters bare_host ?r game_info))"
    using fps_limiter_fail_open [OF t, of bare_host "[]" game_info] nf loc
    unfolding u by blast
  show ?thesis
    using t w e found nf missing by blast
qed

subsection \<open>When the pipeline returns\<close>

text \<open>
  The libstrangle stage never raises.  The whole call returns whenever the key locale is
  present and none of the stages that can raise is entered with a value.
\<close>

lemma libstrangle_stage_returns: "\<exists>a. snd (libstrangle_stage h cfg la) = Inr a"
proof (cases "truthy (dict_get cfg ''fps_limit'')")
  case True
  show ?thesis
  proof (cases "can_find_executable h ''strangle''")
    case True
    then obtain p where "shutil_which h ''strangle'' = Some p" "p \<noteq> []"
      by (auto simp: can_find_executable_def split: option.splits)
    from libstrangle_stage_found [OF \<open>truthy (dict_get cfg ''fps_limit'')\<close> this]
    show ?thesis by simp
  next
    case False
    from libstrangle_stage_missing [OF True this] show ?thesis by simp
  qed
next
  case False
  then show ?thesis by (simp add: libstrangle_stage_off)
qed

lemma get_launch_parameters_returns:
  assumes "map_of (runner_system_config r) ''locale'' \<noteq> None"
    and "\<not> truthy (dict_get (runner_system_config r) ''prefix_command'')"
    and "\<not> truthy (dict_get (runner_system_config r) ''limit_cpu_count'')"
    and "\<not> truthy (dict_get (runner_system_config r) ''gamescope'')"
    and "\<not> truthy (gi_ld_library_path gi)"
  shows "\<exists>args env. snd (get_launch_parameters h r gi) = Inr (args, env)"
proof -
  let ?cfg = "runner_system_config r"
  obtain env1 where
    s1: "snd (steam_compatibility h [(''DISABLE_LAYER_AMD_SWITCHABLE_GRAPHICS_1'', PStr ''1'')])
           = Inr env1"
    using steam_compatibility_returns by blast
  from assms(1) obtain env2 where s2: "snd (set_locale ?cfg env1) = Inr env2"
    by (cases "the (map_of ?cfg ''locale'') = PStr []") (auto simp add: set_locale_def)
  obtain a5 where s5: "snd (libstrangle_stage h ?cfg
      (fst (mangohud_stage h ?cfg (optimus_stage h ?cfg (gi_command gi), env2)))) = Inr a5"
    using libstrangle_stage_returns by blast
  have s6: "snd (prefix_command_stage h ?cfg a5) = Inr a5"
    using assms(2) by (simp add: prefix_command_stage_def)
  obtain a7 where s7: "snd (single_cpu_stage ?cfg a5) = Inr a7"
    using assms(3)
    by (cases "truthy (dict_get ?cfg ''single_cpu'')")
      (auto simp add: single_cpu_stage_def parse_limit_cpu_count_def snd_bind_of_Inr)
  have s9: "snd (ld_stage gi env') = Inr (if truthy (gi_ld_preload gi)
              then AList.update ''LD_PRELOAD'' (gi_ld_preload gi) env' else env')" for env'
    using assms(5) by (simp add: ld_stage_def)
  have s11: "snd (gamescope_stage h ?cfg la) = Inr la" for la
    using assms(4) by (simp add: gamescope_stage_def)
  show ?thesis
    unfolding get_launch_parameters_def Let_def split_beta
    by (simp add: snd_bind_of_Inr [OF s1] snd_bind_of_Inr [OF s2] snd_bind_of_Inr [OF s5]
        snd_bind_of_Inr [OF s6] snd_bind_of_Inr [OF s7] snd_bind_of_Inr [OF s9]
        snd_bind_of_Inr [OF s11])
qed

end
